theory Spec2Isabelle
  imports Complex_Main "HOL-Library.Sublist"
begin

section \<open>Python strings\<close>

text \<open>
  A Python \<open>str\<close> is modelled as the list of its code points, so that \<open>len\<close>,
  indices and slices count code points as Python does. White space is Python's:
  the characters that \<open>str.strip()\<close>, \<open>str.split()\<close> and \<open>\s\<close> take for white
  space, in ASCII and beyond. \<open>lower\<close> is Python's on ASCII text and on the two code
  points beyond ASCII whose lower case holds an ASCII letter, U+0130 and U+212A;
  any other code point above 127 is carried through unchanged, where Python may put
  another code point above 127 in its place, so that the model's lower-cased text
  and Python's have the same length and the same ASCII characters. \<open>title\<close>,
  \<open>isalpha\<close>, \<open>isupper\<close>, \<open>islower\<close> and the letters of the regular expressions
  are Python's on ASCII text: a code point above 127 is not taken for a letter.
\<close>

type_synonym cp = int

type_synonym pystr = "cp list"

text \<open>The code points of a text written as a literal.\<close>

definition cp_of :: "char \<Rightarrow> cp" where
  "cp_of c = of_char c"

definition py :: "string \<Rightarrow> pystr" where
  "py s = map cp_of s"

text \<open>
  The code points for which \<open>str.isspace()\<close> holds: U+0009 to U+000D, U+001C to
  U+0020, U+0085, U+00A0, U+1680, U+2000 to U+200A, U+2028, U+2029, U+202F, U+205F
  and U+3000.
\<close>

definition is_space :: "cp \<Rightarrow> bool" where
  "is_space c =
     ((9 \<le> c \<and> c \<le> 13) \<or> (28 \<le> c \<and> c \<le> 32) \<or> c = 133 \<or> c = 160 \<or> c = 5760
      \<or> (8192 \<le> c \<and> c \<le> 8202) \<or> c = 8232 \<or> c = 8233 \<or> c = 8239 \<or> c = 8287
      \<or> c = 12288)"

definition is_upper :: "cp \<Rightarrow> bool" where
  "is_upper c = (65 \<le> c \<and> c \<le> 90)"

definition is_lower :: "cp \<Rightarrow> bool" where
  "is_lower c = (97 \<le> c \<and> c \<le> 122)"

definition is_alpha :: "cp \<Rightarrow> bool" where
  "is_alpha c = (is_upper c \<or> is_lower c)"

definition is_digit :: "cp \<Rightarrow> bool" where
  "is_digit c = (48 \<le> c \<and> c \<le> 57)"

definition lower_char :: "cp \<Rightarrow> cp" where
  "lower_char c = (if is_upper c then c + 32 else c)"

definition upper_char :: "cp \<Rightarrow> cp" where
  "upper_char c = (if is_lower c then c - 32 else c)"

text \<open>
  \<open>s.lower()\<close>: U+0130 becomes \<open>i\<close> and U+0307, U+212A becomes \<open>k\<close>.
\<close>

definition lower_cps :: "cp \<Rightarrow> pystr" where
  "lower_cps c = (if c = 304 then [105, 775] else if c = 8490 then [107] else [lower_char c])"

definition lower :: "pystr \<Rightarrow> pystr" where
  "lower s = concat (map lower_cps s)"

text \<open>\<open>s.strip()\<close>\<close>

definition lstrip :: "pystr \<Rightarrow> pystr" where
  "lstrip s = dropWhile is_space s"

definition rstrip :: "pystr \<Rightarrow> pystr" where
  "rstrip s = rev (dropWhile is_space (rev s))"

definition strip :: "pystr \<Rightarrow> pystr" where
  "strip s = rstrip (lstrip s)"

text \<open>\<open>s.startswith(p)\<close>, \<open>s.endswith(p)\<close>\<close>

definition startswith :: "pystr \<Rightarrow> pystr \<Rightarrow> bool" where
  "startswith s p = (take (length p) s = p)"

definition endswith :: "pystr \<Rightarrow> pystr \<Rightarrow> bool" where
  "endswith s p = (length p \<le> length s \<and> drop (length s - length p) s = p)"

text \<open>\<open>s.find(sub)\<close> and \<open>s.find(sub, start)\<close>: the lowest index, \<open>None\<close> for Python's -1.\<close>

fun find_aux :: "pystr \<Rightarrow> pystr \<Rightarrow> nat \<Rightarrow> nat option" where
  "find_aux sub [] i = (if sub = [] then Some i else None)"
| "find_aux sub (c # cs) i =
     (if startswith (c # cs) sub then Some i else find_aux sub cs (Suc i))"

definition str_find :: "pystr \<Rightarrow> pystr \<Rightarrow> nat option" where
  "str_find s sub = find_aux sub s 0"

definition str_find_from :: "pystr \<Rightarrow> pystr \<Rightarrow> nat \<Rightarrow> nat option" where
  "str_find_from s sub start =
     (if length s < start then None else find_aux sub (drop start s) start)"

text \<open>\<open>sub in s\<close>\<close>

definition contains :: "pystr \<Rightarrow> pystr \<Rightarrow> bool" where
  "contains sub s = (str_find s sub \<noteq> None)"

text \<open>\<open>s[b:e]\<close> for indices that are not negative\<close>

definition slice :: "pystr \<Rightarrow> nat \<Rightarrow> nat \<Rightarrow> pystr" where
  "slice s b e = take (e - b) (drop b s)"

text \<open>\<open>s.split()\<close>: the maximal runs of characters that are not white space\<close>

fun split_acc :: "pystr \<Rightarrow> pystr \<Rightarrow> pystr list" where
  "split_acc cur [] = (if cur = [] then [] else [cur])"
| "split_acc cur (c # cs) =
     (if is_space c then (if cur = [] then split_acc [] cs else cur # split_acc [] cs)
      else split_acc (cur @ [c]) cs)"

definition split_ws :: "pystr \<Rightarrow> pystr list" where
  "split_ws s = split_acc [] s"

text \<open>\<open>s.split(c)\<close> for a separator of one character: empty pieces are kept\<close>

fun split_chr_acc :: "cp \<Rightarrow> pystr \<Rightarrow> pystr \<Rightarrow> pystr list" where
  "split_chr_acc sep cur [] = [cur]"
| "split_chr_acc sep cur (c # cs) =
     (if c = sep then cur # split_chr_acc sep [] cs else split_chr_acc sep (cur @ [c]) cs)"

definition split_chr :: "cp \<Rightarrow> pystr \<Rightarrow> pystr list" where
  "split_chr sep s = split_chr_acc sep [] s"

text \<open>\<open>s.split(sep, 1)\<close>: at most one cut, at the first occurrence of \<open>sep\<close>\<close>

definition split_once :: "pystr \<Rightarrow> pystr \<Rightarrow> pystr list" where
  "split_once sep s =
     (case str_find s sep of
        None \<Rightarrow> [s]
      | Some i \<Rightarrow> [take i s, drop (i + length sep) s])"

text \<open>\<open>sep.join(xs)\<close>\<close>

fun join :: "pystr \<Rightarrow> pystr list \<Rightarrow> pystr" where
  "join sep [] = []"
| "join sep [x] = x"
| "join sep (x # y # ys) = x @ sep @ join sep (y # ys)"

text \<open>
  \<open>s.title()\<close>: a letter that follows a letter is lower-cased, any other letter is
  upper-cased.
\<close>

fun title_aux :: "bool \<Rightarrow> pystr \<Rightarrow> pystr" where
  "title_aux prev [] = []"
| "title_aux prev (c # cs) =
     (if is_alpha c then (if prev then lower_char c else upper_char c) # title_aux True cs
      else c # title_aux False cs)"

definition title :: "pystr \<Rightarrow> pystr" where
  "title s = title_aux False s"

text \<open>\<open>s.isalpha()\<close>: not empty and letters only\<close>

definition isalpha :: "pystr \<Rightarrow> bool" where
  "isalpha s = (s \<noteq> [] \<and> list_all is_alpha s)"

text \<open>\<open>any(k in s for k in ks)\<close>\<close>

definition any_in :: "pystr list \<Rightarrow> pystr \<Rightarrow> bool" where
  "any_in ks s = list_ex (\<lambda>k. contains k s) ks"

text \<open>\<open>str(n)\<close> for an integer\<close>

fun str_nat :: "nat \<Rightarrow> pystr" where
  "str_nat n =
     (if n < 10 then [48 + int n]
      else str_nat (n div 10) @ [48 + int (n mod 10)])"

definition str_int :: "int \<Rightarrow> pystr" where
  "str_int i = (if i < 0 then (cp_of CHR ''-'') # str_nat (nat (- i)) else str_nat (nat i))"

section \<open>Regular expressions\<close>

text \<open>
  The patterns of the program use literals, character classes, repetition of a
  character class (greedy or lazy), an optional group, alternation, one capturing
  group (only group 1 is ever read), and the assertions \<open>^\<close>, \<open>$\<close> and \<open>\b\<close>. The
  matcher lists the ways a pattern can match from a position in the order in which
  Python's backtracking matcher tries them; the first one is the match.
\<close>

datatype rx =
    Lit pystr
  | Cls "cp \<Rightarrow> bool"
  | PlusG "cp \<Rightarrow> bool"
  | PlusL "cp \<Rightarrow> bool"
  | StarG "cp \<Rightarrow> bool"
  | Opt rx
  | Seq rx rx
  | Alt rx rx
  | Grp rx
  | Bol
  | Eol
  | Wb

text \<open>
  A matcher state: the position, the character before it (for \<open>\b\<close>), the text that
  is left, and the span of group 1.
\<close>

record mstate =
  pos :: nat
  prev :: "cp option"
  rest :: pystr
  grp :: "(nat \<times> nat) option"

definition advance :: "nat \<Rightarrow> mstate \<Rightarrow> mstate" where
  "advance n st =
     (if n = 0 then st
      else st\<lparr>pos := pos st + n, prev := Some (rest st ! (n - 1)), rest := drop n (rest st)\<rparr>)"

definition is_word :: "cp option \<Rightarrow> bool" where
  "is_word co = (case co of None \<Rightarrow> False | Some c \<Rightarrow> is_alpha c \<or> is_digit c \<or> c = (cp_of CHR ''_''))"

definition next_char :: "mstate \<Rightarrow> cp option" where
  "next_char st = (case rest st of [] \<Rightarrow> None | c # _ \<Rightarrow> Some c)"

text \<open>\<open>ic\<close> is the flag \<open>re.IGNORECASE\<close>.\<close>

definition lit_matches :: "bool \<Rightarrow> pystr \<Rightarrow> pystr \<Rightarrow> bool" where
  "lit_matches ic l s =
     (if ic then startswith (map lower_char s) (map lower_char l) else startswith s l)"

fun ms :: "bool \<Rightarrow> rx \<Rightarrow> mstate \<Rightarrow> mstate list" where
  "ms ic (Lit l) st = (if lit_matches ic l (rest st) then [advance (length l) st] else [])"
| "ms ic (Cls p) st =
     (case rest st of [] \<Rightarrow> [] | c # _ \<Rightarrow> if p c then [advance 1 st] else [])"
| "ms ic (PlusL p) st =
     map (\<lambda>n. advance n st) [1 ..< Suc (length (takeWhile p (rest st)))]"
| "ms ic (PlusG p) st =
     map (\<lambda>n. advance n st) (rev [1 ..< Suc (length (takeWhile p (rest st)))])"
| "ms ic (StarG p) st =
     map (\<lambda>n. advance n st) (rev [0 ..< Suc (length (takeWhile p (rest st)))])"
| "ms ic (Opt r) st = ms ic r st @ [st]"
| "ms ic (Seq r1 r2) st = concat (map (ms ic r2) (ms ic r1 st))"
| "ms ic (Alt r1 r2) st = ms ic r1 st @ ms ic r2 st"
| "ms ic (Grp r) st = map (\<lambda>st'. st'\<lparr>grp := Some (pos st, pos st')\<rparr>) (ms ic r st)"
| "ms ic Bol st = (if pos st = 0 then [st] else [])"
| "ms ic Eol st = (if rest st = [] \<or> rest st = [10] then [st] else [])"
| "ms ic Wb st = (if is_word (prev st) \<noteq> is_word (next_char st) then [st] else [])"

text \<open>A match: where it starts, where it ends, and the span of group 1.\<close>

record rmatch =
  m_start :: nat
  m_end :: nat
  m_grp :: "(nat \<times> nat) option"

fun search_aux :: "bool \<Rightarrow> rx \<Rightarrow> nat \<Rightarrow> cp option \<Rightarrow> pystr \<Rightarrow> rmatch option" where
  "search_aux ic r i pv [] =
     (case ms ic r \<lparr>pos = i, prev = pv, rest = [], grp = None\<rparr> of
        [] \<Rightarrow> None
      | st # _ \<Rightarrow> Some \<lparr>m_start = i, m_end = pos st, m_grp = grp st\<rparr>)"
| "search_aux ic r i pv (c # cs) =
     (case ms ic r \<lparr>pos = i, prev = pv, rest = c # cs, grp = None\<rparr> of
        [] \<Rightarrow> search_aux ic r (Suc i) (Some c) cs
      | st # _ \<Rightarrow> Some \<lparr>m_start = i, m_end = pos st, m_grp = grp st\<rparr>)"

text \<open>\<open>re.search(r, s)\<close>\<close>

definition re_search :: "bool \<Rightarrow> rx \<Rightarrow> pystr \<Rightarrow> rmatch option" where
  "re_search ic r s = search_aux ic r 0 None s"

text \<open>\<open>m.group(1)\<close>, for a match in which group 1 took part\<close>

definition group1 :: "pystr \<Rightarrow> rmatch \<Rightarrow> pystr" where
  "group1 s m = (case m_grp m of None \<Rightarrow> [] | Some (b, e) \<Rightarrow> slice s b e)"

text \<open>
  \<open>re.sub(r, repl, s)\<close> for a replacement without group references: every match,
  from the left, none overlapping another; after an empty match the scan moves on
  by one character.
\<close>

function sub_aux :: "bool \<Rightarrow> rx \<Rightarrow> pystr \<Rightarrow> nat \<Rightarrow> cp option \<Rightarrow> pystr \<Rightarrow> pystr" where
  "sub_aux ic r repl i pv s =
     (case ms ic r \<lparr>pos = i, prev = pv, rest = s, grp = None\<rparr> of
        [] \<Rightarrow> (case s of [] \<Rightarrow> [] | c # cs \<Rightarrow> c # sub_aux ic r repl (Suc i) (Some c) cs)
      | st # _ \<Rightarrow>
          (if pos st - i = 0 \<or> length s < pos st - i
           then repl @ (case s of [] \<Rightarrow> [] | c # cs \<Rightarrow> c # sub_aux ic r repl (Suc i) (Some c) cs)
           else repl @ sub_aux ic r repl (pos st) (Some (s ! (pos st - i - 1)))
                         (drop (pos st - i) s)))"
  by pat_completeness auto
termination
  by (relation "measure (\<lambda>(ic, r, repl, i, pv, s). length s)") auto

definition re_sub :: "bool \<Rightarrow> rx \<Rightarrow> pystr \<Rightarrow> pystr \<Rightarrow> pystr" where
  "re_sub ic r repl s = sub_aux ic r repl 0 None s"

fun seqs :: "rx list \<Rightarrow> rx" where
  "seqs [] = Lit []"
| "seqs [r] = r"
| "seqs (r # rs) = Seq r (seqs rs)"

fun alts :: "rx list \<Rightarrow> rx" where
  "alts [] = Cls (\<lambda>_. False)"
| "alts [r] = r"
| "alts (r # rs) = Alt r (alts rs)"

text \<open>The classes \<open>.\<close> (anything but a newline), \<open>[a-zA-Z\s]\<close>, \<open>[,\?\.!]\<close>.\<close>

definition dot :: "cp \<Rightarrow> bool" where
  "dot c = (c \<noteq> 10)"

definition az_space :: "cp \<Rightarrow> bool" where
  "az_space c = (is_alpha c \<or> is_space c)"

definition punct :: "cp \<Rightarrow> bool" where
  "punct c = (c = (cp_of CHR '','') \<or> c = (cp_of CHR ''?'') \<or> c = (cp_of CHR ''.'') \<or> c = (cp_of CHR ''!''))"

section \<open>The weather agent\<close>

text \<open>
  A value of the weather provider's JSON: null, a number or a string. A number is
  held as the real number it denotes.
\<close>

datatype pyval = PNone | PNum real | PStr pystr

datatype py_error = TypeError

text \<open>
  The provider's answer, as \<open>get_weather\<close> reads it: the request failed, or the JSON
  came back, with or without a \<open>current\<close> object, whose two fields may be missing.
\<close>

record current_json =
  temperature_2m :: "pyval option"
  precipitation_probability_2m :: "pyval option"

datatype weather_reply = WeatherRequestFailed | WeatherJson "current_json option"

record weather_data =
  temperature :: pyval
  precipitation_probability :: pyval
  success :: bool

definition get_weather :: "weather_reply \<Rightarrow> weather_data option" where
  "get_weather reply =
     (case reply of
        WeatherRequestFailed \<Rightarrow> None
      | WeatherJson None \<Rightarrow> None
      | WeatherJson (Some current) \<Rightarrow>
          Some \<lparr>temperature =
                   (case temperature_2m current of None \<Rightarrow> PStr (py ''N/A'') | Some v \<Rightarrow> v),
                 precipitation_probability =
                   (case precipitation_probability_2m current of None \<Rightarrow> PNum 0 | Some v \<Rightarrow> v),
                 success = True\<rparr>)"

text \<open>\<open>round(x)\<close>: to the nearest integer, a tie to the even one; not a number raises.\<close>

definition round_half_even :: "real \<Rightarrow> int" where
  "round_half_even x =
     (let f = \<lfloor>x\<rfloor>; d = x - of_int f in
      if d < 1 / 2 then f else if 1 / 2 < d then f + 1 else if even f then f else f + 1)"

definition py_round :: "pyval \<Rightarrow> py_error + int" where
  "py_round v = (case v of PNum x \<Rightarrow> Inr (round_half_even x) | _ \<Rightarrow> Inl TypeError)"

text \<open>The two characters that stand before \<open>C\<close> in the source's temperature text.\<close>

definition degree_text :: pystr where
  "degree_text = [194, 176]"

definition format_weather_response :: "weather_data \<Rightarrow> pystr \<Rightarrow> py_error + pystr" where
  "format_weather_response wd place_name =
     (if \<not> success wd then Inr ((py ''Unable to fetch weather information for '') @ place_name @ (py ''.''))
      else
        case (if temperature wd \<noteq> PNone
              then (case py_round (temperature wd) of
                      Inl e \<Rightarrow> Inl e
                    | Inr t \<Rightarrow> Inr (str_int t @ degree_text @ (py ''C'')))
              else Inr (py ''N/A'')) of
          Inl e \<Rightarrow> Inl e
        | Inr temp_str \<Rightarrow>
            (case py_round (precipitation_probability wd) of
               Inl e \<Rightarrow> Inl e
             | Inr rain_chance_rounded \<Rightarrow>
                 Inr ((py ''In '') @ place_name @ (py '' it's currently '') @ temp_str
                      @ (py '' with a chance of '') @ str_int rain_chance_rounded @ (py ''% to rain.''))))"

section \<open>The places agent\<close>

definition max_places :: nat where
  "max_places = 5"

definition normalize_name :: "pystr \<Rightarrow> pystr" where
  "normalize_name name = re_sub False (PlusG is_space) (py '' '') (lower (strip name))"

definition common_words :: "pystr list" where
  "common_words = (map py [''the'', ''a'', ''an'', ''of'', ''in'', ''at''])"

text \<open>
  The last test of \<open>_is_similar\<close> compares a count with \<open>min(...) * 0.7\<close>; it is
  written here in whole numbers, \<open>7 * min(...) \<le> 10 * matches\<close>.
\<close>

definition is_similar :: "pystr \<Rightarrow> pystr \<Rightarrow> bool" where
  "is_similar name1 name2 =
     (let norm1 = normalize_name name1;
          norm2 = normalize_name name2 in
      if norm1 = norm2 then True
      else if (contains norm1 norm2 \<or> contains norm2 norm1)
              \<and> length norm1 > 3 \<and> length norm2 > 3 then True
      else
        let words1 = filter (\<lambda>w. w \<notin> set common_words) (split_ws norm1);
            words2 = filter (\<lambda>w. w \<notin> set common_words) (split_ws norm2) in
        if length words1 > 0 \<and> length words2 > 0
           \<and> 7 * min (length words1) (length words2)
               \<le> 10 * length (filter (\<lambda>w. w \<in> set words2) words1)
        then True
        else False)"

text \<open>
  The dictionary \<open>seen_places\<close> keeps its keys in the order of insertion: an
  association list, where \<open>d[k] = v\<close> overwrites in place or appends.
\<close>

definition dict_del :: "pystr \<Rightarrow> (pystr \<times> pystr) list \<Rightarrow> (pystr \<times> pystr) list" where
  "dict_del k d = filter (\<lambda>(k', v). k' \<noteq> k) d"

definition dict_set :: "pystr \<Rightarrow> pystr \<Rightarrow> (pystr \<times> pystr) list \<Rightarrow> (pystr \<times> pystr) list" where
  "dict_set k v d =
     (if k \<in> set (map fst d) then map (\<lambda>(k', v'). if k' = k then (k', v) else (k', v')) d
      else d @ [(k, v)])"

text \<open>One turn of the loop of \<open>_refine_places\<close>, on the pair \<open>(refined, seen_places)\<close>.\<close>

definition refine_step ::
  "pystr list \<times> (pystr \<times> pystr) list \<Rightarrow> pystr \<Rightarrow> pystr list \<times> (pystr \<times> pystr) list" where
  "refine_step st place =
     (let refined = fst st; seen_places = snd st;
          normalized = normalize_name place in
      case List.find (\<lambda>(seen_norm, seen_orig). is_similar place seen_orig) seen_places of
        Some (seen_norm, seen_orig) \<Rightarrow>
          (if length place > length seen_orig
           then (filter (\<lambda>p. p \<noteq> seen_orig) refined @ [place],
                 dict_set normalized place (dict_del seen_norm seen_places))
           else (refined, seen_places))
      | None \<Rightarrow> (refined @ [place], dict_set normalized place seen_places))"

text \<open>The list \<open>refined\<close> when the loop has run, before it is cut to \<open>max_places\<close>.\<close>

definition refine_loop :: "pystr list \<Rightarrow> pystr list" where
  "refine_loop places = fst (foldl refine_step ([], []) places)"

definition refine_places :: "pystr list \<Rightarrow> pystr list" where
  "refine_places places = (if places = [] then [] else take max_places (refine_loop places))"

text \<open>
  The answer of the attractions provider, as \<open>get_tourist_attractions\<close> reads it:
  the request failed, or the \<open>name\<close> tag of each element that came back.
\<close>

datatype overpass_reply = OverpassRequestFailed | OverpassElements "pystr option list"

definition get_tourist_attractions :: "overpass_reply \<Rightarrow> pystr list" where
  "get_tourist_attractions reply =
     (case reply of
        OverpassRequestFailed \<Rightarrow> []
      | OverpassElements names \<Rightarrow>
          take max_places (refine_places
            (List.map_filter
               (\<lambda>name. case name of
                          None \<Rightarrow> None
                        | Some n \<Rightarrow> if n \<noteq> [] \<and> strip n \<noteq> [] then Some (strip n) else None)
               names)))"

text \<open>\<open>random.choice\<close> among the five opening sentences: the draw is an input.\<close>

datatype draw = Draw1 | Draw2 | Draw3 | Draw4 | Draw5

fun greetings :: "draw \<Rightarrow> pystr \<Rightarrow> pystr" where
  "greetings Draw1 place_name = (py ''Here are some amazing places in '') @ place_name @ (py '' you shouldn't miss!'')"
| "greetings Draw2 place_name = (py ''Your adventure in '') @ place_name @ (py '' could start at these gems:'')"
| "greetings Draw3 place_name = (py ''Discover these must-see spots in '') @ place_name @ (py '':'')"
| "greetings Draw4 place_name = (py ''Ready to explore '') @ place_name @ (py ''? Check out these places:'')"
| "greetings Draw5 place_name = (py ''Here are five fantastic places to visit in '') @ place_name @ (py '':'')"

definition bulb :: pystr where
  "bulb = [128161]"

definition format_places_response :: "draw \<Rightarrow> pystr list \<Rightarrow> pystr \<Rightarrow> pystr" where
  "format_places_response d places place_name =
     (if places = []
      then (py ''Unfortunately, I couldn't find many tourist attractions listed for '') @ place_name
           @ (py ''. This might be a remote location or the area may have limited tourist data available.'')
      else strip (greetings d place_name @ (py ''\<newline>\<newline>'')
                  @ concat (map (\<lambda>place. (py ''- '') @ place @ (py ''\<newline>'')) places)
                  @ (py ''\<newline>'') @ bulb @ (py '' Tip: Click on any place to learn more about it!'')))"

text \<open>
  What \<open>get_place_details\<close> hands back when it finds the place: the fields that
  \<open>format_place_details_response\<close> reads. A field that is missing or null is \<open>None\<close>.
\<close>

record place_details =
  d_name :: pystr
  d_display_name :: pystr
  d_description :: "pystr option"
  d_opening_hours :: "pystr option"
  d_fee :: "pystr option"
  d_heritage :: "pystr option"
  d_historic :: "pystr option"
  d_website :: "pystr option"

text \<open>Python's truth value of an optional string: \<open>None\<close> and \<open>""\<close> are false.\<close>

definition truthy :: "pystr option \<Rightarrow> bool" where
  "truthy v = (case v of None \<Rightarrow> False | Some s \<Rightarrow> s \<noteq> [])"

definition or_empty :: "pystr option \<Rightarrow> pystr" where
  "or_empty v = (case v of None \<Rightarrow> [] | Some s \<Rightarrow> s)"

text \<open>\<open>parts[0].strip()\<close> and \<open>parts[1].strip()\<close> of a list that \<open>split\<close> returned.\<close>

definition part0 :: "pystr list \<Rightarrow> pystr" where
  "part0 parts = (case parts of [] \<Rightarrow> [] | p # _ \<Rightarrow> p)"

definition part1 :: "pystr list \<Rightarrow> pystr" where
  "part1 parts = (case parts of _ # p # _ \<Rightarrow> p | _ \<Rightarrow> [])"

definition format_place_details_response :: "place_details \<Rightarrow> pystr" where
  "format_place_details_response details =
     (let name = d_name details;
          head = (py ''**'') @ name @ (py ''**\<newline>\<newline>'');
          display_name = d_display_name details;
          parts = split_chr (cp_of CHR '','') display_name;
          response = head
            @ (if truthy (d_description details)
               then or_empty (d_description details) @ (py ''\<newline>\<newline>'') else [])
            @ (if display_name \<noteq> []
               then [128205] @ (py '' Location: '')
                    @ strip (part0 parts)
                    @ (if length parts > 1 then (py '', '') @ strip (part1 parts) else [])
                    @ (py ''\<newline>\<newline>'')
               else [])
            @ (if truthy (d_opening_hours details)
               then [128336] @ (py '' Opening Hours: '')
                    @ or_empty (d_opening_hours details) @ (py ''\<newline>\<newline>'')
               else [])
            @ (if truthy (d_fee details)
               then [128176] @ (py '' Admission: '')
                    @ or_empty (d_fee details) @ (py ''\<newline>\<newline>'')
               else [])
            @ (if truthy (d_heritage details)
               then [127963, 65039]
                    @ (py '' Heritage Status: '') @ or_empty (d_heritage details) @ (py ''\<newline>\<newline>'')
               else if truthy (d_historic details)
               then [127963, 65039]
                    @ (py '' Historic Site: '') @ or_empty (d_historic details) @ (py ''\<newline>\<newline>'')
               else [])
            @ (if truthy (d_website details)
               then [127760] @ (py '' Website: '')
                    @ or_empty (d_website details) @ (py ''\<newline>\<newline>'')
               else [])
      in strip
           (if response = head
            then response @ name @ (py '' is a notable tourist attraction'')
                 @ (if display_name \<noteq> [] then (py '' located in '') @ strip (part0 parts) else [])
                 @ (py ''.'')
            else response))"

section \<open>The tourism agent: the place name\<close>

definition sp :: rx where
  "sp = PlusG is_space"

text \<open>\<open>[,\?\.!]+$\<close>\<close>

definition punct_end_rx :: rx where
  "punct_end_rx = Seq (PlusG punct) Eol"

text \<open>\<open>\s+(w1|w2|...).*$\<close>, the shape of every pattern that cuts trailing words\<close>

definition trailing_rx :: "pystr list \<Rightarrow> rx" where
  "trailing_rx ws = seqs [sp, Grp (alts (map Lit ws)), StarG dot, Eol]"

text \<open>
  The loops \<open>for stop in [...]: stop_idx = text.find(stop, start_idx); if stop_idx != -1
  and stop_idx < end_pos: end_pos = stop_idx\<close>, from \<open>end_pos = len(original_input)\<close>.
\<close>

definition stop_at :: "pystr \<Rightarrow> pystr list \<Rightarrow> nat \<Rightarrow> nat \<Rightarrow> nat" where
  "stop_at text stops start_idx end0 =
     foldl (\<lambda>end_pos stop.
              case str_find_from text stop start_idx of
                Some stop_idx \<Rightarrow> if stop_idx < end_pos then stop_idx else end_pos
              | None \<Rightarrow> end_pos)
           end0 stops"

definition stop_chars :: "pystr list" where
  "stop_chars = (map py ['','', ''?'', ''!'', ''.''])"

text \<open>
  Each pattern of \<open>extract_place_name\<close> is a function that returns \<open>Some\<close> of what the
  source returns there, or \<open>None\<close> when the source goes on to the next pattern.
\<close>

definition weather_in_rx :: rx where
  "weather_in_rx =
     seqs [Lit (py ''weather''), sp, alts [Lit (py ''in''), Lit (py ''at''), Lit (py ''for'')], sp,
           Grp (PlusL az_space),
           alts [Seq sp (Lit (py ''like'')), Lit (py ''?''), Eol, Lit (py '',''), Lit (py ''.''),
                 Lit (py ''what''), Lit (py ''where''), Lit (py ''how''), Lit (py ''and'')]]"

definition pattern1 :: "pystr \<Rightarrow> pystr option" where
  "pattern1 user_input =
     (case re_search True weather_in_rx user_input of
        None \<Rightarrow> None
      | Some m \<Rightarrow>
          (let place = strip (re_sub True
                 (trailing_rx (map py [''and'', ''what'', ''where'', ''how'', ''is'', ''the'', ''like'',
                               ''can'', ''i'', ''visit'', ''places'']))
                 [] (strip (group1 user_input m))) in
           if place \<noteq> [] \<and> length place > 2
           then (case str_find (lower user_input) (lower place) of
                   Some start_idx \<Rightarrow>
                     (let extracted = strip (re_sub False punct_end_rx []
                            (strip (slice user_input start_idx (start_idx + length place)))) in
                      if extracted \<noteq> [] then Some extracted else Some (title place))
                 | None \<Rightarrow> Some (title place))
           else None))"

definition in_rx :: rx where
  "in_rx =
     seqs [Wb, Lit (py ''in''), sp, Grp (Seq (Cls is_alpha) (PlusL az_space)),
           alts [Lit (py '',''), Lit (py ''?''), Eol, Lit (py ''what''), Lit (py ''where''), Lit (py ''how''), Lit (py ''can''),
                 Lit (py ''i''), Lit (py ''visit''), Lit (py ''places''), Lit (py ''is''), Lit (py ''the''),
                 Lit (py ''temperature''), Lit (py ''weather''), Lit (py ''and'')]]"

definition pattern2 :: "pystr \<Rightarrow> pystr option" where
  "pattern2 user_input =
     (case re_search True in_rx user_input of
        None \<Rightarrow> None
      | Some m \<Rightarrow>
          (let place = strip (re_sub True
                 (trailing_rx (map py [''and'', ''what'', ''where'', ''how'', ''can'', ''i'', ''visit'',
                               ''places'', ''is'', ''the'', ''temperature'', ''weather'', ''like'']))
                 [] (strip (group1 user_input m))) in
           if place \<noteq> [] \<and> length place > 2
           then (case str_find (lower user_input) (lower place) of
                   Some start_idx \<Rightarrow>
                     (let end_pos = stop_at user_input stop_chars start_idx (length user_input);
                          extracted = strip (re_sub False punct_end_rx []
                            (strip (slice user_input start_idx end_pos))) in
                      if extracted \<noteq> [] then Some extracted else Some (strip place))
                 | None \<Rightarrow> Some (strip place))
           else None))"

definition places_tail :: "rx list" where
  "places_tail =
     [sp, Grp (PlusL az_space),
      alts [Lit (py ''?''), Eol, Lit (py '',''), Lit (py ''.''), Lit (py ''what''), Lit (py ''where''), Lit (py ''how''),
            Lit (py ''and'')]]"

definition places_in_rx :: rx where
  "places_in_rx =
     seqs ([Lit (py ''places''), sp, Opt (seqs [Lit (py ''to''), sp, Lit (py ''visit''), sp]),
            alts [Lit (py ''in''), Lit (py ''at''), Lit (py ''for''), Lit (py ''to''),
                  seqs [Lit (py ''i''), sp, Lit (py ''can''), sp, Lit (py ''go''), sp, Lit (py ''to'')]]]
           @ places_tail)"

definition after_for_rx :: rx where
  "after_for_rx =
     seqs ([Lit (py ''places''), sp, Opt (seqs [Lit (py ''to''), sp, Lit (py ''visit''), sp]), Lit (py ''for'')]
           @ places_tail)"

definition pattern3 :: "pystr \<Rightarrow> pystr option" where
  "pattern3 user_input =
     (case re_search True places_in_rx user_input of
        None \<Rightarrow> None
      | Some m \<Rightarrow>
          (let place0 = strip (re_sub True
                 (trailing_rx (map py [''and'', ''for'', ''what'', ''where'', ''how'', ''can'', ''i'',
                               ''visit'', ''places'', ''is'', ''the'', ''like'']))
                 [] (strip (group1 user_input m)));
               place =
                 (if lower place0 = (py ''for'')
                  then (case re_search True after_for_rx user_input of
                          None \<Rightarrow> place0
                        | Some m' \<Rightarrow>
                            strip (re_sub True
                              (trailing_rx (map py [''and'', ''what'', ''where'', ''how'', ''can'', ''i'',
                                            ''visit'', ''places'', ''is'', ''the'', ''like'']))
                              [] (strip (group1 user_input m'))))
                  else place0) in
           if place \<noteq> [] \<and> length place > 2
           then (case str_find (lower user_input) (lower place) of
                   Some start_idx \<Rightarrow>
                     (let end_pos = stop_at user_input stop_chars start_idx (length user_input);
                          extracted = strip (re_sub False punct_end_rx []
                            (strip (slice user_input start_idx end_pos))) in
                      if extracted \<noteq> [] then Some extracted else Some (title place))
                 | None \<Rightarrow> Some (title place))
           else None))"

definition travel_stop_words :: "pystr list" where
  "travel_stop_words =
     (map py [''let's'', ''let'', ''plan'', ''my'', ''trip'', ''what'', ''is'', ''the'', ''temperature'',
      ''there'', ''and'', ''are'', ''places'', ''i'', ''can'', ''visit'', ''show'', ''me'',
      ''like''])"

text \<open>One turn of the loop over the travel phrases of pattern 4.\<close>

definition travel_phrase :: "pystr \<Rightarrow> pystr \<Rightarrow> pystr option" where
  "travel_phrase user_input pattern =
     (let user_lower = lower user_input in
      if contains pattern user_lower
      then (let parts = split_once pattern user_lower in
            if length parts > 1
            then (let place = strip (re_sub False (seqs [Cls punct, StarG dot, Eol]) []
                                       (strip (part1 parts)));
                      filtered_words =
                        takeWhile (\<lambda>word. word \<notin> set travel_stop_words) (split_ws place) in
                  if filtered_words \<noteq> []
                  then (let matched =
                              filter (\<lambda>orig_word. lower orig_word \<in> set (map lower filtered_words))
                                     (split_ws user_input) in
                        if matched \<noteq> [] then Some (join (py '' '') matched)
                        else Some (title (join (py '' '') filtered_words)))
                  else None)
            else None)
      else None)"

fun first_some :: "('a \<Rightarrow> 'b option) \<Rightarrow> 'a list \<Rightarrow> 'b option" where
  "first_some f [] = None"
| "first_some f (x # xs) = (case f x of Some y \<Rightarrow> Some y | None \<Rightarrow> first_some f xs)"

definition pattern4 :: "pystr \<Rightarrow> pystr option" where
  "pattern4 user_input =
     first_some (travel_phrase user_input)
       (map py [''going to go to'', ''going to'', ''travel to'', ''trip to''])"

definition temp_of_rx :: rx where
  "temp_of_rx =
     seqs [Lit (py ''temperature''), sp, alts [Lit (py ''of''), Lit (py ''in''), Lit (py ''at'')], sp,
           Grp (PlusL az_space),
           alts [Seq sp (Lit (py ''and'')), seqs [sp, Lit (py ''n''), sp], Seq sp (Lit (py ''places'')),
                 Lit (py ''?''), Eol, Lit (py '',''), Lit (py ''.'')]]"

definition pattern5 :: "pystr \<Rightarrow> pystr option" where
  "pattern5 user_input =
     (case re_search True temp_of_rx user_input of
        None \<Rightarrow> None
      | Some m \<Rightarrow>
          (let place = strip (re_sub True
                 (trailing_rx (map py [''and'', ''n'', ''places'', ''visit'', ''there'', ''to'', ''the'']))
                 [] (strip (group1 user_input m))) in
           if place \<noteq> [] \<and> length place > 2
           then (case str_find (lower user_input) (lower place) of
                   Some start_idx \<Rightarrow>
                     (let end_pos = stop_at (lower user_input)
                                      (map py ['' and'', '' n '', '' places'', '' visit'', '' there''])
                                      start_idx (length user_input);
                          extracted = strip (slice user_input start_idx end_pos) in
                      if extracted \<noteq> [] then Some extracted else Some (title place))
                 | None \<Rightarrow> Some (title place))
           else None))"

text \<open>\<open>temperat?u?r?e?|weather|places|visit|attractions|tourist\<close>\<close>

definition keyword_alts :: "rx list" where
  "keyword_alts =
     [seqs [Lit (py ''tempera''), Opt (Lit (py ''t'')), Opt (Lit (py ''u'')), Opt (Lit (py ''r'')), Opt (Lit (py ''e''))],
      Lit (py ''weather''), Lit (py ''places''), Lit (py ''visit''), Lit (py ''attractions''), Lit (py ''tourist'')]"

definition simple_rx :: rx where
  "simple_rx =
     seqs [Bol, Grp (Seq (Cls is_alpha) (PlusL az_space)), sp,
           Alt (alts keyword_alts) (seqs [sp, Lit (py ''n''), sp])]"

definition keyword_rx :: rx where
  "keyword_rx =
     Seq sp (alts (keyword_alts @ [seqs [sp, Lit (py ''n''), sp], seqs [sp, Lit (py ''and''), sp]]))"

definition pattern6 :: "pystr \<Rightarrow> pystr option" where
  "pattern6 user_input =
     (case re_search True simple_rx user_input of
        None \<Rightarrow> None
      | Some m \<Rightarrow>
          (let place = strip (strip (group1 user_input m)) in
           if place \<noteq> [] \<and> length place > 2
           then (case str_find (lower user_input) (lower place) of
                   Some start_idx \<Rightarrow>
                     (case re_search True keyword_rx (drop start_idx (lower user_input)) of
                        Some keyword_match \<Rightarrow>
                          (let extracted = strip (slice user_input start_idx
                                                    (start_idx + m_start keyword_match)) in
                           if extracted \<noteq> [] then Some extracted else Some (title place))
                      | None \<Rightarrow>
                          (let extracted = strip (slice user_input start_idx
                                                    (start_idx + length place)) in
                           if extracted \<noteq> [] then Some extracted else Some (title place)))
                 | None \<Rightarrow> Some (title place))
           else None))"

definition common_words7 :: "pystr list" where
  "common_words7 =
     (map py [''what'', ''where'', ''how'', ''when'', ''why'', ''the'', ''a'', ''an'', ''is'', ''are'',
      ''can'', ''i'', ''more''])"

text \<open>\<open>s[0].isalpha()\<close>, \<open>s[0].islower()\<close>, \<open>s[0].isupper()\<close> of a string that may be empty.\<close>

definition first_is :: "(cp \<Rightarrow> bool) \<Rightarrow> pystr \<Rightarrow> bool" where
  "first_is p s = (case s of [] \<Rightarrow> False | c # _ \<Rightarrow> p c)"

text \<open>\<open>place.title() if place[0].islower() else place\<close>\<close>

definition title_if_lower :: "pystr \<Rightarrow> pystr" where
  "title_if_lower place = (if first_is is_lower place then title place else place)"

definition pattern7 :: "pystr \<Rightarrow> pystr option" where
  "pattern7 user_input =
     (let words = split_ws user_input in
      if length words = 1
         \<or> (length words = 2
             \<and> lower (part1 words) \<in> set (map py [''temperature'', ''weather'', ''places'', ''?'']))
      then (let place = strip (re_sub False punct_end_rx [] (part0 words)) in
            if place \<noteq> [] \<and> length place > 2 \<and> first_is is_alpha place
               \<and> lower place \<notin> set common_words7
            then Some (title_if_lower place)
            else None)
      else None)"

definition question_rx :: rx where
  "question_rx =
     seqs [Bol, Grp (Seq (Cls is_alpha) (PlusL az_space)), alts [Lit (py ''?''), Lit (py ''!''), Eol]]"

definition pattern8 :: "pystr \<Rightarrow> pystr option" where
  "pattern8 user_input =
     (case re_search True question_rx user_input of
        None \<Rightarrow> None
      | Some m \<Rightarrow>
          if length (split_ws user_input) \<le> 2
          then (let place = strip (re_sub False punct_end_rx [] (strip (group1 user_input m))) in
                if place \<noteq> [] \<and> length place > 2 \<and> lower place \<notin> set common_words7
                then Some (title_if_lower place)
                else None)
          else None)"

definition stop_words_lower :: "pystr list" where
  "stop_words_lower =
     (map py [''what'', ''is'', ''the'', ''weather'', ''in'', ''at'', ''for'', ''like'', ''places'', ''to'',
      ''visit'', ''can'', ''i'', ''go'', ''temperature'', ''more'', ''and'', ''n'', ''there'',
      ''also''])"

text \<open>The loop of pattern 9 over the words, with \<open>capitalized_words\<close> as accumulator.\<close>

fun capitalized_run :: "pystr list \<Rightarrow> pystr list \<Rightarrow> pystr list" where
  "capitalized_run capitalized_words [] = capitalized_words"
| "capitalized_run capitalized_words (word # words) =
     (if lower word \<in> set stop_words_lower
      then (if capitalized_words \<noteq> [] then capitalized_words
            else capitalized_run capitalized_words words)
      else if word \<noteq> [] \<and> first_is is_upper word \<and> isalpha word
      then capitalized_run (capitalized_words @ [word]) words
      else if capitalized_words \<noteq> [] \<and> isalpha word \<and> lower word \<notin> set stop_words_lower
      then capitalized_run (capitalized_words @ [word]) words
      else if capitalized_words \<noteq> [] then capitalized_words
      else capitalized_run capitalized_words words)"

definition pattern9 :: "pystr \<Rightarrow> pystr option" where
  "pattern9 user_input =
     (let capitalized_words = capitalized_run [] (split_ws user_input) in
      if capitalized_words \<noteq> [] then Some (join (py '' '') capitalized_words) else None)"

definition common_words10 :: "pystr list" where
  "common_words10 =
     (map py [''what'', ''where'', ''how'', ''when'', ''why'', ''the'', ''a'', ''an'', ''is'', ''are'',
      ''can'', ''i'', ''more'', ''temperature'', ''weather'', ''places'', ''visit'', ''and'', ''n'',
      ''there'', ''also''])"

fun last_resort :: "pystr list \<Rightarrow> pystr option" where
  "last_resort [] = None"
| "last_resort (word # words) =
     (let cleaned = strip (re_sub False punct_end_rx [] word) in
      if length cleaned \<ge> 3 \<and> first_is is_alpha cleaned \<and> lower cleaned \<notin> set common_words10
      then (if words \<noteq> []
               \<and> lower (part0 words) \<in> set (map py [''and'', ''n'', ''places'', ''visit'', ''there'',
                                             ''temperature'', ''weather''])
            then Some (title_if_lower cleaned)
            else Some (title_if_lower cleaned))
      else last_resort words)"

definition pattern10 :: "pystr \<Rightarrow> pystr option" where
  "pattern10 user_input = last_resort (split_ws user_input)"

definition extract_place_name :: "pystr \<Rightarrow> pystr option" where
  "extract_place_name user_input =
     first_some (\<lambda>pattern. pattern user_input)
       [pattern1, pattern2, pattern3, pattern4, pattern5, pattern6, pattern7, pattern8,
        pattern9, pattern10]"

section \<open>The tourism agent: intent, greetings, regions\<close>

record intent =
  wants_weather :: bool
  wants_places :: bool
  wants_timing :: bool
  wants_place_detail :: bool

definition place_detail_keywords :: "pystr list" where
  "place_detail_keywords =
     (map py [''tell me about'', ''information about'', ''details about'', ''what is'', ''tell me more'',
      ''about'', ''info''])"

definition timing_keywords :: "pystr list" where
  "timing_keywords =
     (map py [''timing'', ''hours'', ''open'', ''closed'', ''schedule'', ''when'', ''time to visit'',
      ''visiting hours'', ''opening hours''])"

definition weather_keywords :: "pystr list" where
  "weather_keywords =
     (map py [''temperature'', ''temperture'', ''temprature'', ''temp'', ''weather'', ''rain'',
      ''forecast'', ''climate'', ''hot'', ''cold'', ''degrees''])"

definition places_keywords :: "pystr list" where
  "places_keywords =
     (map py [''places'', ''visit'', ''attractions'', ''tourist'', ''go'', ''see'', ''sightseeing'',
      ''sights'', ''landmarks'', ''what to see'', ''where to go''])"

definition places_phrases :: "pystr list" where
  "places_phrases =
     (map py [''what places'', ''where to'', ''places to'', ''places can'', ''places i'', ''attractions''])"

definition trip_words :: "pystr list" where
  "trip_words = (map py [''going'', ''trip'', ''travel'', ''plan''])"

definition determine_intent :: "pystr \<Rightarrow> intent" where
  "determine_intent user_input =
     (let user_lower = lower user_input;
          wants_place_detail0 = any_in place_detail_keywords user_lower;
          wants_timing0 = any_in timing_keywords user_lower;
          wants_weather0 = any_in weather_keywords user_lower;
          wants_places0 = any_in places_keywords user_lower;
          wants_places1 = (if any_in places_phrases user_lower then True else wants_places0);
          wants_places2 = (if wants_weather0 \<and> \<not> wants_places1 then False else wants_places1)
      in
      if \<not> wants_weather0 \<and> \<not> wants_places2 \<and> \<not> wants_place_detail0
      then (if any_in trip_words user_lower
            then \<lparr>wants_weather = True, wants_places = True,
                  wants_timing = wants_timing0, wants_place_detail = wants_place_detail0\<rparr>
            else if length (split_ws user_lower) \<le> 3
            then \<lparr>wants_weather = wants_weather0, wants_places = True,
                  wants_timing = wants_timing0, wants_place_detail = wants_place_detail0\<rparr>
            else \<lparr>wants_weather = wants_weather0, wants_places = True,
                  wants_timing = wants_timing0, wants_place_detail = wants_place_detail0\<rparr>)
      else \<lparr>wants_weather = wants_weather0, wants_places = wants_places2,
            wants_timing = wants_timing0, wants_place_detail = wants_place_detail0\<rparr>)"

definition detail_tail :: "rx list" where
  "detail_tail =
     [Grp (PlusL dot), alts [Lit (py ''?''), Eol, Lit (py ''.''), Lit (py '',''), Lit (py ''please'')]]"

definition detail_patterns :: "rx list" where
  "detail_patterns =
     [seqs ([Lit (py ''tell me ''), Opt (Lit (py ''more '')), Lit (py ''about '')] @ detail_tail),
      seqs (Lit (py ''information about '') # detail_tail),
      seqs (Lit (py ''details about '') # detail_tail),
      seqs (Lit (py ''what is '') # detail_tail),
      seqs (Lit (py ''tell me '') # detail_tail),
      seqs (Lit (py ''about '') # detail_tail),
      seqs (Lit (py ''info '') # detail_tail)]"

definition detail_match :: "pystr \<Rightarrow> rx \<Rightarrow> pystr option" where
  "detail_match user_input pattern =
     (case re_search True pattern user_input of
        None \<Rightarrow> None
      | Some m \<Rightarrow>
          (let place = strip (re_sub True
                 (trailing_rx (map py [''please'', ''thanks'', ''thank you'', ''tell me'', ''more'', ''info'']))
                 [] (strip (group1 user_input m))) in
           if place \<noteq> [] \<and> length place > 2 then Some place else None))"

definition extract_place_detail_query :: "pystr \<Rightarrow> pystr option" where
  "extract_place_detail_query user_input =
     (case first_some (detail_match user_input) detail_patterns of
        Some place \<Rightarrow> Some place
      | None \<Rightarrow>
          (let words = split_ws user_input in
           if length words \<ge> 2 \<and> length words \<le> 5
           then (let capitalized_words = filter (\<lambda>w. w \<noteq> [] \<and> first_is is_upper w) words in
                 if capitalized_words \<noteq> [] then Some (join (py '' '') capitalized_words) else None)
           else None))"

definition greeting_words :: "pystr list" where
  "greeting_words =
     (map py [''hi'', ''hello'', ''hey'', ''greetings'', ''good morning'', ''good afternoon'',
      ''good evening''])"

definition is_greeting :: "pystr \<Rightarrow> bool" where
  "is_greeting user_input =
     (let user_lower = strip (lower user_input) in
      if any_in (map py [''weather'', ''temperature'', ''places'', ''visit'', ''attractions'', ''in '', ''at ''])
                user_lower
      then False
      else list_ex (\<lambda>greeting. greeting = user_lower \<or> startswith user_lower (greeting @ (py '' '')))
                   greeting_words)"

definition goodbye_phrases :: "pystr list" where
  "goodbye_phrases =
     (map py [''bye'', ''goodbye'', ''see you'', ''see ya'', ''farewell'', ''exit'', ''quit'', ''close'',
      ''thanks'', ''thank you'', ''thank'', ''thx'', ''appreciate it'', ''that's all'',
      ''that's it'', ''done'', ''finished''])"

definition is_goodbye :: "pystr \<Rightarrow> bool" where
  "is_goodbye user_input =
     (let user_lower = strip (lower user_input) in
      list_ex (\<lambda>phrase. phrase = user_lower \<or> startswith user_lower (phrase @ (py '' ''))
                        \<or> endswith user_lower ((py '' '') @ phrase))
              goodbye_phrases)"

text \<open>
  The geocoding record that the agent reads. A key that the provider left out is
  \<open>None\<close>; \<open>importance\<close> is the number the provider gave, as a real.
\<close>

record geo_info =
  g_type :: "pystr option"
  g_class :: "pystr option"
  g_display_name :: "pystr option"
  g_importance :: "real option"
  g_name :: "pystr option"
  g_name_colon_en :: "pystr option"
  g_name_en :: "pystr option"

definition importance_of :: "geo_info \<Rightarrow> real" where
  "importance_of g = (case g_importance g of None \<Rightarrow> 0 | Some x \<Rightarrow> x)"

definition major_cities :: "pystr list" where
  "major_cities =
     (map py [''london'', ''paris'', ''tokyo'', ''baku'', ''istanbul'', ''moscow'', ''cairo'',
      ''delhi'', ''mumbai'', ''bangalore'', ''kolkata'', ''chennai'', ''hyderabad'',
      ''new york'', ''los angeles'', ''chicago'', ''houston'', ''phoenix'',
      ''sydney'', ''melbourne'', ''toronto'', ''vancouver'', ''montreal'',
      ''berlin'', ''madrid'', ''rome'', ''amsterdam'', ''vienna'', ''prague'',
      ''dubai'', ''riyadh'', ''doha'', ''singapore'', ''hong kong'', ''seoul'',
      ''beijing'', ''shanghai'', ''bangkok'', ''jakarta'', ''manila'',
      ''mexico city'', ''sao paulo'', ''rio de janeiro'', ''buenos aires'',
      ''lagos'', ''nairobi'', ''johannesburg'', ''cape town''])"

definition city_indicators :: "pystr list" where
  "city_indicators = (map py [''city'', ''town'', ''village'', ''municipality'', ''suburb''])"

text \<open>\<open>pattern in display_name and display_name.index(pattern) < 50\<close>\<close>

definition early_in :: "pystr \<Rightarrow> pystr \<Rightarrow> bool" where
  "early_in pattern display_name =
     (case str_find display_name pattern of None \<Rightarrow> False | Some i \<Rightarrow> i < 50)"

definition check_if_state_or_region :: "pystr \<Rightarrow> geo_info \<Rightarrow> bool" where
  "check_if_state_or_region place_name geocoding_result =
     (let place_type = lower (or_empty (g_type geocoding_result));
          place_class = lower (or_empty (g_class geocoding_result));
          display_name = lower (or_empty (g_display_name geocoding_result));
          place_lower = lower place_name;
          importance = importance_of geocoding_result;
          parts = split_chr (cp_of CHR '','') display_name
      in
      if strip place_lower \<in> set major_cities then False
      else if list_ex (\<lambda>pattern. early_in pattern display_name)
                [place_lower @ (py '',''), (py '', '') @ place_lower @ (py '','')] then False
      else if (contains (py ''city'') display_name \<or> contains (py ''town'') display_name)
              \<and> contains place_lower display_name then False
      else if list_ex (\<lambda>indicator. contains indicator place_type \<or> contains indicator place_class)
                city_indicators then False
      else if place_class = (py ''boundary'') \<and> place_type = (py ''administrative'')
              \<and> contains (py ''country'') display_name \<and> contains place_lower display_name
              \<and> importance > 0.8 then True
      else if contains (py ''administrative'') place_type \<and> place_class = (py ''administrative'')
              \<and> 0.4 \<le> importance \<and> importance \<le> 0.7
              \<and> length parts > 1
              \<and> \<not> contains place_lower (lower (strip (part0 parts)))
              \<and> \<not> list_ex (\<lambda>part. contains (py ''city'') part \<or> contains (py ''town'') part) parts
           then True
      else False)"

section \<open>The tourism agent: one query\<close>

text \<open>
  What the agent gets from outside: the result of \<open>get_coordinates_with_details\<close>
  for a place name, the answers of the weather and attractions providers at a
  coordinate, and the result of \<open>get_place_details\<close> for a name. The hour of the
  clock and the random draw are inputs too.
\<close>

record geocoding_data =
  coordinates :: "(real \<times> real) option"
  info :: geo_info

record providers =
  get_coordinates_with_details :: "pystr \<Rightarrow> geocoding_data option"
  weather_api :: "real \<Rightarrow> real \<Rightarrow> weather_reply"
  overpass_api :: "real \<Rightarrow> real \<Rightarrow> overpass_reply"
  get_place_details :: "pystr \<Rightarrow> place_details option"

definition farewell_text :: pystr where
  "farewell_text =
     [128075]
     @ (py '' Goodbye! It was great helping you plan your trip. Safe travels and enjoy your journey! '')
     @ [127757, 9992, 65039]"

definition time_greeting :: "nat \<Rightarrow> pystr" where
  "time_greeting hour =
     (if hour < 12 then (py ''Good morning'') else if hour < 18 then (py ''Good afternoon'')
      else (py ''Good evening''))"

definition greeting_text :: "nat \<Rightarrow> pystr" where
  "greeting_text hour =
     time_greeting hour @ (py ''! '') @ [128075]
     @ (py '' I'm your travel planning assistant!\<newline>\<newline>I can help you with:\<newline>- '')
     @ [127780, 65039]
     @ (py '' Current weather and forecasts\<newline>- '') @ [128205]
     @ (py '' Must-see attractions and hidden gems\<newline>\<newline>Where would you like to explore? Try asking:\<newline>- 'What's the weather in Bangalore?'\<newline>- 'What places can I visit in Paris?'\<newline>- 'Tell me about Tokyo - weather and places!'')
     @ [39]"

definition too_short_text :: pystr where
  "too_short_text =
     (py ''I need more information to help you. Please tell me:\<newline>- A place name (e.g., 'Bangalore', 'Paris', 'New York')\<newline>- What you'd like to know (weather, places to visit, or both)'')"

definition timing_text :: pystr where
  "timing_text =
     (py ''I understand you're asking about visiting hours or timings. Unfortunately, the data source I use (Overpass API) doesn't provide timing information for tourist attractions.\<newline>\<newline>For visiting hours, I recommend:\<newline>- Checking the official website of the attraction\<newline>- Using Google Maps or similar services\<newline>- Contacting local tourism offices\<newline>\<newline>I can still help you with weather information and suggest places to visit!'')"

definition no_details_text :: "pystr \<Rightarrow> pystr" where
  "no_details_text place_detail_name =
     (py ''Sorry, detailed information about '') @ [39] @ place_detail_name @ [39]
     @ (py '' is not currently available. Please try asking about a different place or check the official website for more information.'')"

definition which_place_text :: pystr where
  "which_place_text =
     (py ''I'd be happy to provide information about a specific place! Please tell me which tourist attraction you'd like to know more about. For example: 'Tell me about Qutub Minar' or 'What is the Eiffel Tower?'')
     @ [39]"

definition no_place_text :: pystr where
  "no_place_text =
     (py ''I couldn't find a valid place name in your query. Please provide a place name like:\<newline>- 'Dubai'\<newline>- 'Dubai temperature'\<newline>- 'What's the weather in Paris?'\<newline>- 'In Bangalore, what places can I visit?'\<newline>- 'Show me places to visit in Tokyo'')
     @ [39]"

definition unknown_place_text :: "pystr \<Rightarrow> pystr" where
  "unknown_place_text place_name =
     (py ''I don't know if '') @ [39] @ place_name @ [39]
     @ (py '' exists. Could you please provide a valid place name?'')"

definition region_text :: "pystr \<Rightarrow> pystr" where
  "region_text proper_place_name =
     (py ''I found '') @ [39] @ proper_place_name @ [39]
     @ (py '', but it appears to be a country, state, or region rather than a specific city.\<newline>\<newline>Please specify a city within '')
     @ proper_place_name
     @ (py '' for more accurate weather and attraction information.\<newline>\<newline>For example:\<newline>- If you meant Karnataka, try 'Bangalore' or 'Mysore'\<newline>- If you meant California, try 'Los Angeles' or 'San Francisco'\<newline>- If you meant India, try 'Mumbai' or 'Delhi'')
     @ [39]"

definition region_recheck_text :: "pystr \<Rightarrow> pystr" where
  "region_recheck_text proper_place_name =
     (py ''I found '') @ [39] @ proper_place_name @ [39]
     @ (py '', but it appears to be a country, state, or region rather than a specific city.\<newline>\<newline>Please enter a city name instead. For example, if you're looking for places in '')
     @ proper_place_name
     @ (py '', try:\<newline>- 'Mumbai' or 'Delhi' (for India)\<newline>- 'Kolkata' or 'Darjeeling' (for West Bengal)\<newline>- 'Los Angeles' or 'San Francisco' (for California)'')"

definition no_data_text :: "pystr \<Rightarrow> pystr" where
  "no_data_text proper_place_name =
     (py ''Sorry, detailed tourist attraction data is not currently available for '')
     @ proper_place_name
     @ (py ''. Please try searching for a nearby major city or a different location.'')"

definition unable_text :: "pystr \<Rightarrow> pystr" where
  "unable_text proper_place_name =
     (py ''Unable to fetch information for '') @ proper_place_name
     @ (py ''. Please try rephrasing your query.'')"

text \<open>\<open>any(ord(char) > 127 for char in s)\<close>\<close>

definition non_ascii :: "pystr \<Rightarrow> bool" where
  "non_ascii s = list_ex (\<lambda>c. c > 127) s"

text \<open>\<open>\s*\([^)]+\)\s*$\<close>\<close>

definition paren_rx :: rx where
  "paren_rx =
     seqs [StarG is_space, Lit (py ''(''), PlusG (\<lambda>c. c \<noteq> (cp_of CHR '')'')), Lit (py '')''), StarG is_space, Eol]"

text \<open>The name that the replies use, lines 627 to 648 of \<open>process_query\<close>.\<close>

definition proper_name :: "pystr \<Rightarrow> geo_info \<Rightarrow> pystr" where
  "proper_name place_name geocoding_info =
     (let p0 = (if truthy (g_name_colon_en geocoding_info)
                then or_empty (g_name_colon_en geocoding_info)
                else if truthy (g_name_en geocoding_info)
                then or_empty (g_name_en geocoding_info)
                else (case g_name geocoding_info of None \<Rightarrow> place_name | Some n \<Rightarrow> n));
          display_name = or_empty (g_display_name geocoding_info);
          p1 = (if p0 \<noteq> [] \<and> non_ascii p0 \<and> display_name \<noteq> []
                then (case List.find (\<lambda>part. part \<noteq> [] \<and> \<not> non_ascii part)
                             (map strip (split_chr (cp_of CHR '','') display_name)) of
                        Some part \<Rightarrow> part
                      | None \<Rightarrow> p0)
                else p0);
          p2 = (if p1 \<noteq> [] then strip (re_sub False paren_rx [] p1) else p1)
      in if p2 = [] \<or> length p2 < 2 then title place_name else p2)"

definition region_keywords :: "pystr list" where
  "region_keywords = (map py [''state'', ''province'', ''region'', ''country'', ''republic'', ''kingdom''])"

definition common_countries :: "pystr list" where
  "common_countries =
     (map py [''india'', ''nepal'', ''china'', ''usa'', ''united states'', ''uk'', ''united kingdom'',
      ''france'', ''germany'', ''japan'', ''australia'', ''canada'', ''brazil'', ''russia''])"

definition common_states :: "pystr list" where
  "common_states =
     (map py [''west bengal'', ''karnataka'', ''maharashtra'', ''tamil nadu'', ''gujarat'', ''rajasthan'',
      ''punjab'', ''california'', ''texas'', ''new york'', ''florida''])"

text \<open>
  The second look at the place when no attraction was found, lines 682 to 758: the
  value of \<open>is_likely_region\<close> after each of its methods.
\<close>

definition is_likely_region :: "pystr \<Rightarrow> geo_info \<Rightarrow> bool" where
  "is_likely_region proper_place_name geocoding_info =
     (let importance = importance_of geocoding_info;
          place_type = lower (or_empty (g_type geocoding_info));
          place_class = lower (or_empty (g_class geocoding_info));
          display_name = lower (or_empty (g_display_name geocoding_info));
          place_lower = lower proper_place_name;
          parts = split_chr (cp_of CHR '','') display_name;
          first_part = lower (strip (part0 parts));
          r1 = (place_class = (py ''boundary'') \<and> place_type = (py ''administrative'')
                \<and> importance \<ge> 0.4 \<and> length parts > 1
                \<and> \<not> contains place_lower first_part);
          r2 = (if \<not> r1
                then (any_in region_keywords display_name \<and> length parts > 1
                      \<and> \<not> contains place_lower first_part
                      \<and> list_ex (\<lambda>part. contains place_lower (lower part)
                                        \<and> any_in region_keywords (lower part))
                                 (tl parts))
                else r1);
          r3 = (if \<not> r2
                then (importance \<ge> 0.5 \<and> place_class = (py ''boundary'')
                      \<and> \<not> contains (py ''city'') display_name \<and> \<not> contains (py ''town'') display_name
                      \<and> length parts \<ge> 2
                      \<and> \<not> (case List.find (\<lambda>(i, part). contains place_lower (lower part))
                                   (enumerate 0 parts) of
                             Some (i, part) \<Rightarrow> i = 0
                           | None \<Rightarrow> False))
                else r2);
          r4 = (if \<not> r3 \<and> importance > 0.7 \<and> place_class = (py ''boundary'')
                   \<and> place_type = (py ''administrative'')
                then (length parts \<ge> 2
                      \<and> (contains place_lower (lower (strip (last parts))) \<or> importance > 0.8))
                else r3)
      in if place_lower \<in> set common_countries \<or> place_lower \<in> set common_states then True
         else r4)"

text \<open>The last lines of \<open>process_query\<close>, 770 to 786, on the list \<open>responses\<close>.\<close>

definition combine_responses :: "pystr list \<Rightarrow> pystr \<Rightarrow> pystr" where
  "combine_responses responses proper_place_name =
     (if responses \<noteq> []
      then (case responses of
              [r0, r1] \<Rightarrow>
                (let weather_resp = (if contains (py ''currently'') r0 then r0 else r1);
                     places_resp = (if contains (py ''currently'') r0 then r1 else r0) in
                 if contains (py ''currently'') weather_resp \<and> contains (py ''places you can go'') places_resp
                 then weather_resp @ (py ''. And '')
                      @ (if startswith places_resp (py ''In '') then (py ''in '') @ drop 3 places_resp
                         else places_resp)
                 else join (py '' '') responses)
            | _ \<Rightarrow> join (py '' '') responses)
      else unable_text proper_place_name)"

text \<open>
  From the resolved coordinates on, lines 660 to 786: the weather reply, the places
  reply, and their combination. A \<open>TypeError\<close> raised while the weather text is
  formatted leaves \<open>process_query\<close>.
\<close>

definition answer :: "providers \<Rightarrow> draw \<Rightarrow> pystr \<Rightarrow> real \<times> real \<Rightarrow> geo_info \<Rightarrow> pystr
                         \<Rightarrow> py_error + pystr" where
  "answer env d user_input coords geocoding_info proper_place_name =
     (let intnt = determine_intent user_input;
          lat = fst coords; lon = snd coords in
      case (if wants_weather intnt
            then (case get_weather (weather_api env lat lon) of
                    None \<Rightarrow> Inr []
                  | Some weather_data \<Rightarrow>
                      (case format_weather_response weather_data proper_place_name of
                         Inl e \<Rightarrow> Inl e
                       | Inr weather_response \<Rightarrow> Inr [weather_response]))
            else Inr []) of
        Inl e \<Rightarrow> Inl e
      | Inr responses \<Rightarrow>
          if wants_places intnt
          then (let places = get_tourist_attractions (overpass_api env lat lon) in
                if places \<noteq> []
                then Inr (combine_responses
                            (responses @ [format_places_response d places proper_place_name])
                            proper_place_name)
                else if is_likely_region proper_place_name geocoding_info
                then Inr (region_recheck_text proper_place_name)
                else Inr (no_data_text proper_place_name))
          else Inr (combine_responses responses proper_place_name))"

definition process_query :: "providers \<Rightarrow> nat \<Rightarrow> draw \<Rightarrow> pystr \<Rightarrow> py_error + pystr" where
  "process_query env hour d raw_input =
     (let user_input = strip raw_input in
      if is_goodbye user_input then Inr farewell_text
      else if is_greeting user_input then Inr (greeting_text hour)
      else if length user_input < 3 then Inr too_short_text
      else if wants_timing (determine_intent user_input) then Inr timing_text
      else if wants_place_detail (determine_intent user_input)
      then (case extract_place_detail_query user_input of
              Some place_detail_name \<Rightarrow>
                (case get_place_details env place_detail_name of
                   Some details \<Rightarrow> Inr (format_place_details_response details)
                 | None \<Rightarrow> Inr (no_details_text place_detail_name))
            | None \<Rightarrow> Inr which_place_text)
      else
        case extract_place_name user_input of
          None \<Rightarrow> Inr no_place_text
        | Some place_name \<Rightarrow>
            (case get_coordinates_with_details env place_name of
               None \<Rightarrow> Inr (unknown_place_text place_name)
             | Some geocoding_data \<Rightarrow>
                 (case coordinates geocoding_data of
                    None \<Rightarrow> Inr (unknown_place_text place_name)
                  | Some coords \<Rightarrow>
                      (let geocoding_info = info geocoding_data;
                           proper_place_name = proper_name place_name geocoding_info in
                       if check_if_state_or_region proper_place_name geocoding_info
                       then Inr (region_text proper_place_name)
                       else answer env d user_input coords geocoding_info proper_place_name))))"

section \<open>Parts of the places text\<close>

text \<open>What follows the opening sentence in the text of \<open>format_places_response\<close>.\<close>

definition places_body :: "pystr list \<Rightarrow> pystr" where
  "places_body places =
     (py ''\<newline>\<newline>'')
     @ concat (map (\<lambda>place. (py ''- '') @ place @ (py ''\<newline>'')) places)
     @ (py ''\<newline>'') @ bulb @ (py '' Tip: Click on any place to learn more about it!'')"

section \<open>Sample data\<close>


text \<open>
  A world in which every place name resolves to Paris, the weather is 18.2 degrees
  with a 10 percent chance of rain, and three elements come back from the
  attractions provider, one of them without a name.
\<close>

definition paris_info :: geo_info where
  "paris_info =
     \<lparr>g_type = Some (py ''city''), g_class = Some (py ''place''),
      g_display_name = Some (py ''Paris, Ile-de-France, France''), g_importance = Some 0.9,
      g_name = Some (py ''Paris''), g_name_colon_en = None, g_name_en = None\<rparr>"

definition paris_env :: providers where
  "paris_env =
     \<lparr>get_coordinates_with_details =
        (\<lambda>place_name. Some \<lparr>coordinates = Some (48.85, 2.35), info = paris_info\<rparr>),
      weather_api =
        (\<lambda>lat lon. WeatherJson (Some \<lparr>temperature_2m = Some (PNum 18.2),
                                       precipitation_probability_2m = Some (PNum 10)\<rparr>)),
      overpass_api = (\<lambda>lat lon. OverpassElements [Some (py ''Louvre''), None, Some (py ''Eiffel Tower'')]),
      get_place_details = (\<lambda>name. None)\<rparr>"

text \<open>The same world, but the weather provider's \<open>current\<close> object has no temperature.\<close>

definition no_temperature_env :: providers where
  "no_temperature_env =
     paris_env\<lparr>weather_api :=
        (\<lambda>lat lon. WeatherJson (Some \<lparr>temperature_2m = None,
                                       precipitation_probability_2m = Some (PNum 10)\<rparr>))\<rparr>"

text \<open>The same world, but the attractions provider finds nothing.\<close>

definition no_places_env :: providers where
  "no_places_env = paris_env\<lparr>overpass_api := (\<lambda>lat lon. OverpassElements [])\<rparr>"

definition paris_weather_text :: pystr where
  "paris_weather_text =
     (py ''In Paris it's currently 18'') @ degree_text @ (py ''C with a chance of 10% to rain.'')"

definition paris_places_text :: pystr where
  "paris_places_text =
     (py ''Here are some amazing places in Paris you shouldn't miss!\<newline>\<newline>- Louvre\<newline>- Eiffel Tower\<newline>\<newline>'')
     @ bulb @ (py '' Tip: Click on any place to learn more about it!'')"

definition karnataka :: "real option \<Rightarrow> pystr option \<Rightarrow> geo_info" where
  "karnataka imp n =
     \<lparr>g_type = Some (py ''administrative''), g_class = Some (py ''boundary''),
      g_display_name = Some (py ''Karnataka, India''), g_importance = imp,
      g_name = n, g_name_colon_en = None, g_name_en = None\<rparr>"

definition london :: geo_info where
  "london =
     \<lparr>g_type = Some (py ''administrative''), g_class = None, g_display_name = None,
      g_importance = Some 0.9, g_name = Some (py ''London''), g_name_colon_en = None,
      g_name_en = None\<rparr>"

section \<open>Lemmas on strings\<close>

lemma is_space_lower_char: "is_space (lower_char c) = is_space c"
  by (auto simp: lower_char_def is_space_def is_upper_def)

lemma lstrip_id: "s \<noteq> [] \<Longrightarrow> \<not> is_space (hd s) \<Longrightarrow> lstrip s = s"
  by (cases s) (simp_all add: lstrip_def)

lemma rstrip_id: "s \<noteq> [] \<Longrightarrow> \<not> is_space (last s) \<Longrightarrow> rstrip s = s"
proof -
  assume a: "s \<noteq> []" "\<not> is_space (last s)"
  then obtain x xs where r: "rev s = x # xs" by (cases "rev s") auto
  then have "x = last s" using a by (metis hd_rev list.sel(1))
  with a have "\<not> is_space x" by simp
  then have "dropWhile is_space (x # xs) = x # xs" by simp
  with r have "dropWhile is_space (rev s) = rev s" by simp
  then show ?thesis by (simp add: rstrip_def)
qed

lemma strip_id: "s \<noteq> [] \<Longrightarrow> \<not> is_space (hd s) \<Longrightarrow> \<not> is_space (last s) \<Longrightarrow> strip s = s"
  by (simp add: strip_def lstrip_id rstrip_id)

lemma lstrip_spaces: "list_all is_space pre \<Longrightarrow> lstrip (pre @ s) = lstrip s"
  by (simp add: lstrip_def list_all_iff dropWhile_append2)

lemma rstrip_spaces: "list_all is_space post \<Longrightarrow> rstrip (s @ post) = rstrip s"
proof -
  assume "list_all is_space post"
  then have "\<And>x. x \<in> set (rev post) \<Longrightarrow> is_space x" by (simp add: list_all_iff)
  then have "dropWhile is_space (rev post @ rev s) = dropWhile is_space (rev s)"
    by (rule dropWhile_append2)
  then show ?thesis by (simp add: rstrip_def)
qed

lemma strip_around:
  assumes "list_all is_space pre" "list_all is_space post"
    and "core \<noteq> []" "\<not> is_space (hd core)" "\<not> is_space (last core)"
  shows "strip (pre @ core @ post) = core"
proof -
  have "lstrip (pre @ core @ post) = core @ post"
    using assms by (simp add: lstrip_spaces lstrip_id)
  then show ?thesis using assms by (simp add: strip_def rstrip_spaces rstrip_id)
qed

lemma lower_cps_ends:
  "lower_cps c \<noteq> [] \<and> is_space (hd (lower_cps c)) = is_space c
   \<and> is_space (last (lower_cps c)) = is_space c"
  by (simp add: lower_cps_def is_space_lower_char) (simp add: is_space_def)

lemma lower_ends:
  assumes "core \<noteq> []" and "\<not> is_space (hd core)" and "\<not> is_space (last core)"
  shows "lower core \<noteq> [] \<and> \<not> is_space (hd (lower core)) \<and> \<not> is_space (last (lower core))"
proof -
  from assms(1) obtain c cs where c: "core = c # cs" by (cases core) auto
  from assms(1) obtain bs b where b: "core = bs @ [b]" by (cases core rule: rev_cases) auto
  have "lower core = lower_cps c @ lower cs" using c by (simp add: lower_def)
  then have h: "hd (lower core) = hd (lower_cps c)" "lower core \<noteq> []"
    using lower_cps_ends [of c] by simp_all
  have "lower core = lower bs @ lower_cps b" using b by (simp add: lower_def)
  then have l: "last (lower core) = last (lower_cps b)"
    using lower_cps_ends [of b] by simp
  have "hd core = c" using c by simp
  moreover have "last core = b" using b by simp
  ultimately have "\<not> is_space c" "\<not> is_space b" using assms by simp_all
  then show ?thesis
    using h l lower_cps_ends [of c] lower_cps_ends [of b] by simp
qed

lemma lower_consts:
  "lower (py ''administrative'') = py ''administrative''"
  "lower (py ''boundary'') = py ''boundary''"
  "lower (py ''Karnataka, India'') = py ''karnataka, india''"
  "py ''boundary'' \<noteq> py ''administrative''"
  by code_simp+

lemma no_country: "contains (py ''country'') (py ''karnataka, india'') = False"
  by code_simp

section \<open>Lemmas on substrings\<close>

lemma startswith_prefix: "startswith s p \<longleftrightarrow> prefix p s"
proof
  assume "startswith s p"
  then have "p = take (length p) s" by (simp add: startswith_def)
  then show "prefix p s" by (metis take_is_prefix)
next
  assume "prefix p s"
  then show "startswith s p" by (auto simp: prefix_def startswith_def)
qed

lemma find_aux_sublist: "(find_aux sub s i = None) = (\<not> sublist sub s)"
proof (induction s arbitrary: i)
  case Nil
  show ?case by simp
next
  case (Cons c cs)
  show ?case
  proof (cases "prefix sub (c # cs)")
    case True
    then show ?thesis by (simp add: startswith_prefix sublist_Cons_right)
  next
    case False
    then show ?thesis using Cons [of "Suc i"] by (simp add: startswith_prefix sublist_Cons_right)
  qed
qed

lemma contains_sublist: "contains sub s = sublist sub s"
  unfolding contains_def str_find_def using find_aux_sublist [of sub s 0] by simp

text \<open>A character that does not occur in the needle separates the text.\<close>

lemma sublist_separator:
  assumes "l \<notin> set n"
  shows "sublist n (u @ l # z) \<longleftrightarrow> sublist n u \<or> sublist n z"
proof
  assume "sublist n (u @ l # z)"
  then have "sublist n u \<or> sublist n (l # z)
             \<or> (\<exists>a b. n = a @ b \<and> suffix a u \<and> prefix b (l # z))"
    by (simp only: sublist_append)
  then show "sublist n u \<or> sublist n z"
  proof (elim disjE exE conjE)
    assume "sublist n u" then show ?thesis by simp
  next
    assume "sublist n (l # z)"
    then have "prefix n (l # z) \<or> sublist n z" by (simp add: sublist_Cons_right)
    moreover have "\<not> prefix n (l # z) \<or> n = []"
      using assms by (cases n) auto
    ultimately show ?thesis by auto
  next
    fix a b assume ab: "n = a @ b" "suffix a u" "prefix b (l # z)"
    show ?thesis
    proof (cases b)
      case Nil
      with ab have "suffix n u" by simp
      then show ?thesis by (simp add: suffix_imp_sublist)
    next
      case (Cons c cs)
      with ab have "c = l" by simp
      with ab Cons assms show ?thesis by simp
    qed
  qed
next
  assume "sublist n u \<or> sublist n z"
  then show "sublist n (u @ l # z)"
  proof
    assume "sublist n u" then show ?thesis by (simp add: sublist_append)
  next
    assume "sublist n z"
    then have "sublist n (l # z)" by (simp add: sublist_Cons_right)
    then show ?thesis by (simp add: sublist_append)
  qed
qed

text \<open>A fixed text before: the needle is not in it and no end of it begins the needle.\<close>

lemma sublist_after:
  assumes "\<not> sublist n p"
    and "list_all (\<lambda>k. \<not> suffix (take k n) p) [1 ..< length n]"
  shows "sublist n (p @ y) \<longleftrightarrow> sublist n y"
proof
  assume "sublist n (p @ y)"
  then have "sublist n p \<or> sublist n y
             \<or> (\<exists>a b. n = a @ b \<and> suffix a p \<and> prefix b y)"
    by (simp only: sublist_append)
  then show "sublist n y"
  proof (elim disjE exE conjE)
    assume "sublist n p" with assms show ?thesis by simp
  next
    assume "sublist n y" then show ?thesis .
  next
    fix a b assume ab: "n = a @ b" "suffix a p" "prefix b y"
    show ?thesis
    proof (cases "a = [] \<or> b = []")
      case True
      then show ?thesis
      proof
        assume "a = []"
        with ab show ?thesis by (simp add: prefix_imp_sublist)
      next
        assume "b = []"
        with ab have "sublist n p" by (simp add: suffix_imp_sublist)
        with assms show ?thesis by simp
      qed
    next
      case False
      with ab have "1 \<le> length a" "length a < length n"
        by (simp_all add: Suc_le_eq)
      then have "length a \<in> set [1 ..< length n]" by simp
      with assms(2) have "\<not> suffix (take (length a) n) p"
        unfolding list_all_iff by blast
      moreover have "take (length a) n = a" using ab by simp
      ultimately show ?thesis using ab by simp
    qed
  qed
next
  assume "sublist n y" then show "sublist n (p @ y)" by (simp add: sublist_append)
qed

text \<open>A fixed text at the end: the needle is not in it and no beginning of it ends the needle.\<close>

lemma sublist_before:
  assumes "\<not> sublist n t"
    and "list_all (\<lambda>k. \<not> prefix (drop k n) t) [1 ..< length n]"
  shows "sublist n (y @ t) \<longleftrightarrow> sublist n y"
proof
  assume "sublist n (y @ t)"
  then have "sublist n y \<or> sublist n t
             \<or> (\<exists>a b. n = a @ b \<and> suffix a y \<and> prefix b t)"
    by (simp only: sublist_append)
  then show "sublist n y"
  proof (elim disjE exE conjE)
    assume "sublist n t" with assms show ?thesis by simp
  next
    assume "sublist n y" then show ?thesis .
  next
    fix a b assume ab: "n = a @ b" "suffix a y" "prefix b t"
    show ?thesis
    proof (cases "a = [] \<or> b = []")
      case True
      then show ?thesis
      proof
        assume "a = []"
        with ab have "sublist n t" by (simp add: prefix_imp_sublist)
        with assms show ?thesis by simp
      next
        assume "b = []"
        with ab show ?thesis by (simp add: suffix_imp_sublist)
      qed
    next
      case False
      with ab have "1 \<le> length a" "length a < length n"
        by (simp_all add: Suc_le_eq)
      then have "length a \<in> set [1 ..< length n]" by simp
      with assms(2) have "\<not> prefix (drop (length a) n) t"
        unfolding list_all_iff by blast
      moreover have "drop (length a) n = b" using ab by simp
      ultimately show ?thesis using ab by simp
    qed
  qed
next
  assume "sublist n y" then show "sublist n (y @ t)" by (simp add: sublist_append)
qed

section \<open>Response composition\<close>

text \<open>
  C1. With both a weather text and a places text, \<open>process_query\<close> is to join them
  as the weather text, then \<open>. And\<close>, then the places text. It does so only when
  the places text contains \<open>places you can go\<close>, which no opening sentence of
  \<open>format_places_response\<close> does: for the weather text of Paris and its places text
  the two are joined by one space, in \<open>combine_responses\<close> and in the whole query.
\<close>

theorem C1_joined_by_space:
  "format_weather_response
     \<lparr>temperature = PNum 18.2, precipitation_probability = PNum 10, success = True\<rparr> (py ''Paris'')
     = Inr paris_weather_text
   \<and> format_places_response Draw1 (map py [''Louvre'', ''Eiffel Tower'']) (py ''Paris'') = paris_places_text
   \<and> combine_responses [paris_weather_text, paris_places_text] (py ''Paris'')
       = paris_weather_text @ (py '' '') @ paris_places_text
   \<and> process_query paris_env 9 Draw1 (py ''What's the weather in Paris and what places can I visit?'')
       = Inr (paris_weather_text @ (py '' '') @ paris_places_text)"
  by code_simp

section \<open>Failures\<close>

text \<open>
  C2. \<open>process_query\<close> is to return a text whatever the providers answer. When the
  weather provider's \<open>current\<close> object has no temperature, \<open>get_weather\<close> puts the
  string \<open>N/A\<close> in its place, \<open>format_weather_response\<close> rounds it, and the
  \<open>TypeError\<close> leaves \<open>process_query\<close>.
\<close>

theorem C2_type_error:
  "process_query no_temperature_env 9 Draw1 (py ''What's the weather in Paris?'') = Inl TypeError"
  by code_simp

section \<open>Regions and cities\<close>

text \<open>
  C3, as the claim has it: the record with type administrative, class boundary,
  importance 0.75 and display name Karnataka, India would be a region. For the
  place name Karnataka \<open>check_if_state_or_region\<close> returns false.
\<close>

theorem C3_karnataka_is_city:
  "\<not> check_if_state_or_region (py ''Karnataka'') (karnataka (Some 0.75) (Some (py ''Karnataka'')))"
  by code_simp

text \<open>
  C3, amended: that record is classified as a city, whatever the place name, the
  importance and the name field are. Its class is not administrative and its display
  name does not contain the word country, so neither rule for regions applies.
\<close>

theorem C3_never_region:
  "check_if_state_or_region place_name (karnataka imp n) = False"
  unfolding check_if_state_or_region_def Let_def karnataka_def
  by (simp add: or_empty_def lower_consts no_country)

theorem C3_never_region_witness:
  "check_if_state_or_region (py ''India'') (karnataka (Some 0.75) None) = False"
  by (rule C3_never_region)

text \<open>
  C8. A place name that, lower-cased and stripped, is in the list of major cities is
  classified as a city, whatever the type, class, importance and display name of the
  geocoding record are.
\<close>

theorem C8_whitelist:
  "strip (lower place_name) \<in> set major_cities
   \<Longrightarrow> check_if_state_or_region place_name g = False"
  unfolding check_if_state_or_region_def Let_def by simp

theorem C8_whitelist_witness:
  "strip (lower (py ''London'')) \<in> set major_cities
   \<and> check_if_state_or_region (py ''London'') london = False"
proof -
  have h: "strip (lower (py ''London'')) \<in> set major_cities" by code_simp
  from C8_whitelist [OF h] h show ?thesis by simp
qed

section \<open>Deduplication\<close>

text \<open>
  C4. Deduplication of the list Central Park, Park, The Central Park, Eiffel Tower
  returns exactly The Central Park, Eiffel Tower: Park and Central Park fall into one
  cluster, whose longer variant The Central Park is kept, and Eiffel Tower stays apart.
\<close>

theorem C4_dedupe_example:
  "refine_places (map py [''Central Park'', ''Park'', ''The Central Park'', ''Eiffel Tower''])
     = (map py [''The Central Park'', ''Eiffel Tower''])"
  by code_simp








section \<open>Two runs of one query\<close>

text \<open>
  C6, as the claim has it: two runs on the same input with the same provider data
  would differ in the greeting at most. The query Paris, at the same hour, answers
  with two different texts when the draws of the opening sentence differ.
\<close>

theorem C6_draw_changes_response:
  "process_query paris_env 9 Draw1 (py ''Paris'') \<noteq> process_query paris_env 9 Draw2 (py ''Paris'')"
  by code_simp

text \<open>
  The places text is the opening sentence drawn, followed by a text that does not
  depend on the draw; it never starts with \<open>In\<close>.
\<close>

lemma py_Nil: "py [] = []"
  by (simp add: py_def)

lemma py_Cons: "py (c # cs) = cp_of c # py cs"
  by (simp add: py_def)

lemma greetings_hd:
  "greetings d name @ y \<noteq> [] \<and> \<not> is_space (hd (greetings d name @ y))
   \<and> hd (greetings d name @ y) \<noteq> 73"
  by (cases d) (simp_all add: py_Cons cp_of_def is_space_def)

lemma tip_last:
  "py '' Tip: Click on any place to learn more about it!'' \<noteq> []"
  "last (py '' Tip: Click on any place to learn more about it!'') = 33"
  by code_simp+

lemma places_body_last: "places_body places \<noteq> [] \<and> last (places_body places) = 33"
  by (simp add: places_body_def tip_last)

lemma format_places_response_eq:
  assumes "places \<noteq> []"
  shows "format_places_response d places name = greetings d name @ places_body places"
proof -
  have "strip (greetings d name @ places_body places) = greetings d name @ places_body places"
    using greetings_hd [of d name "places_body places"] places_body_last [of places]
    by (intro strip_id) (simp_all add: is_space_def)
  then show ?thesis
    using assms by (simp add: format_places_response_def places_body_def)
qed

lemma not_in: "\<not> prefix (py ''In '') (greetings d name @ y)"
proof
  assume "prefix (py ''In '') (greetings d name @ y)"
  then obtain zs where "greetings d name @ y = py ''In '' @ zs" by (auto simp: prefix_def)
  then have "hd (greetings d name @ y) = 73" by (simp add: py_Cons cp_of_def)
  with greetings_hd [of d name y] show False by simp
qed

text \<open>
  Whether the places text contains \<open>places you can go\<close> does not depend on the
  draw: the words occur in the place name or after the opening sentence, or not at all.
\<close>

lemma needle_facts:
  "10 \<notin> set (py ''places you can go'')"
  "58 \<notin> set (py ''places you can go'')"
  "63 \<notin> set (py ''places you can go'')"
  "39 \<notin> set (py ''places you can go'')"
  "\<not> sublist (py ''places you can go'') []"
  "\<not> sublist (py ''places you can go'') (py '' Check out these places:'')"
  "\<not> sublist (py ''places you can go'') (py ''t miss!'')"
  by code_simp+

lemma literal_splits:
  "py '':'' = [58]"
  "py ''? Check out these places:'' = 63 # py '' Check out these places:''"
  "py '' you shouldn't miss!'' = py '' you shouldn'' @ 39 # py ''t miss!''"
  "py '' could start at these gems:'' = py '' could start at these gems'' @ [58]"
  "py ''\<newline>\<newline>'' = [10, 10]"
  by code_simp+

lemma before_place:
  "\<not> sublist (py ''places you can go'') (py ''Here are some amazing places in '')"
  "list_all (\<lambda>k. \<not> suffix (take k (py ''places you can go'')) (py ''Here are some amazing places in ''))
     [1 ..< length (py ''places you can go'')]"
  "\<not> sublist (py ''places you can go'') (py ''Your adventure in '')"
  "list_all (\<lambda>k. \<not> suffix (take k (py ''places you can go'')) (py ''Your adventure in ''))
     [1 ..< length (py ''places you can go'')]"
  "\<not> sublist (py ''places you can go'') (py ''Discover these must-see spots in '')"
  "list_all (\<lambda>k. \<not> suffix (take k (py ''places you can go'')) (py ''Discover these must-see spots in ''))
     [1 ..< length (py ''places you can go'')]"
  "\<not> sublist (py ''places you can go'') (py ''Ready to explore '')"
  "list_all (\<lambda>k. \<not> suffix (take k (py ''places you can go'')) (py ''Ready to explore ''))
     [1 ..< length (py ''places you can go'')]"
  "\<not> sublist (py ''places you can go'') (py ''Here are five fantastic places to visit in '')"
  "list_all (\<lambda>k. \<not> suffix (take k (py ''places you can go'')) (py ''Here are five fantastic places to visit in ''))
     [1 ..< length (py ''places you can go'')]"
  by code_simp+

lemma after_place:
  "\<not> sublist (py ''places you can go'') (py '' you shouldn'')"
  "list_all (\<lambda>k. \<not> prefix (drop k (py ''places you can go'')) (py '' you shouldn''))
     [1 ..< length (py ''places you can go'')]"
  "\<not> sublist (py ''places you can go'') (py '' could start at these gems'')"
  "list_all (\<lambda>k. \<not> prefix (drop k (py ''places you can go'')) (py '' could start at these gems''))
     [1 ..< length (py ''places you can go'')]"
  by code_simp+

lemma needle_in_greeting:
  "sublist (py ''places you can go'') (greetings d name) = sublist (py ''places you can go'') name"
proof (cases d)
  case Draw1
  have "greetings d name
        = (py ''Here are some amazing places in '' @ name @ py '' you shouldn'') @ 39 # py ''t miss!''"
    using Draw1 by (simp add: literal_splits)
  then have "sublist (py ''places you can go'') (greetings d name)
             = sublist (py ''places you can go'')
                 (py ''Here are some amazing places in '' @ name @ py '' you shouldn'')"
    by (simp only: sublist_separator [OF needle_facts(4)] needle_facts simp_thms)
  also have "\<dots> = sublist (py ''places you can go'') (name @ py '' you shouldn'')"
    by (rule sublist_after [OF before_place(1) before_place(2)])
  also have "\<dots> = sublist (py ''places you can go'') name"
    by (rule sublist_before [OF after_place(1) after_place(2)])
  finally show ?thesis .
next
  case Draw2
  have "greetings d name
        = (py ''Your adventure in '' @ name @ py '' could start at these gems'') @ 58 # []"
    using Draw2 by (simp add: literal_splits)
  then have "sublist (py ''places you can go'') (greetings d name)
             = sublist (py ''places you can go'')
                 (py ''Your adventure in '' @ name @ py '' could start at these gems'')"
    by (simp only: sublist_separator [OF needle_facts(2)] needle_facts simp_thms)
  also have "\<dots> = sublist (py ''places you can go'') (name @ py '' could start at these gems'')"
    by (rule sublist_after [OF before_place(3) before_place(4)])
  also have "\<dots> = sublist (py ''places you can go'') name"
    by (rule sublist_before [OF after_place(3) after_place(4)])
  finally show ?thesis .
next
  case Draw3
  have "greetings d name = (py ''Discover these must-see spots in '' @ name) @ 58 # []"
    using Draw3 by (simp add: literal_splits)
  then have "sublist (py ''places you can go'') (greetings d name)
             = sublist (py ''places you can go'') (py ''Discover these must-see spots in '' @ name)"
    by (simp only: sublist_separator [OF needle_facts(2)] needle_facts simp_thms)
  also have "\<dots> = sublist (py ''places you can go'') name"
    by (rule sublist_after [OF before_place(5) before_place(6)])
  finally show ?thesis .
next
  case Draw4
  have "greetings d name
        = (py ''Ready to explore '' @ name) @ 63 # py '' Check out these places:''"
    using Draw4 by (simp add: literal_splits)
  then have "sublist (py ''places you can go'') (greetings d name)
             = sublist (py ''places you can go'') (py ''Ready to explore '' @ name)"
    by (simp only: sublist_separator [OF needle_facts(3)] needle_facts simp_thms)
  also have "\<dots> = sublist (py ''places you can go'') name"
    by (rule sublist_after [OF before_place(7) before_place(8)])
  finally show ?thesis .
next
  case Draw5
  have "greetings d name = (py ''Here are five fantastic places to visit in '' @ name) @ 58 # []"
    using Draw5 by (simp add: literal_splits)
  then have "sublist (py ''places you can go'') (greetings d name)
             = sublist (py ''places you can go'')
                 (py ''Here are five fantastic places to visit in '' @ name)"
    by (simp only: sublist_separator [OF needle_facts(2)] needle_facts simp_thms)
  also have "\<dots> = sublist (py ''places you can go'') name"
    by (rule sublist_after [OF before_place(9) before_place(10)])
  finally show ?thesis .
qed

lemma places_body_split: "places_body places = 10 # tl (places_body places)"
  by (simp add: places_body_def literal_splits)

lemma needle_in_places_text:
  "sublist (py ''places you can go'') (greetings d name @ places_body places)
   = (sublist (py ''places you can go'') name
      \<or> sublist (py ''places you can go'') (tl (places_body places)))"
proof -
  have "sublist (py ''places you can go'') (greetings d name @ 10 # tl (places_body places))
        = (sublist (py ''places you can go'') (greetings d name)
           \<or> sublist (py ''places you can go'') (tl (places_body places)))"
    by (rule sublist_separator [OF needle_facts(1)])
  then show ?thesis
    using places_body_split [of places] by (simp add: needle_in_greeting)
qed

lemma currently_split: "py '' it's currently '' = py '' it's '' @ py ''currently'' @ py '' ''"
  by code_simp

lemma weather_currently:
  assumes "get_weather r = Some wd" and "format_weather_response wd p = Inr w"
  shows "sublist (py ''currently'') w"
proof -
  from assms(1) have "success wd"
    by (auto simp: get_weather_def split: weather_reply.splits option.splits)
  with assms(2) obtain a b where
    "w = py ''In '' @ p @ py '' it's currently '' @ a @ py '' with a chance of '' @ b @ py ''% to rain.''"
    by (auto simp: format_weather_response_def split: if_splits sum.splits)
  then have "w = (py ''In '' @ p @ py '' it's '') @ py ''currently''
                   @ (py '' '' @ a @ py '' with a chance of '' @ b @ py ''% to rain.'')"
    by (simp add: currently_split)
  then show ?thesis by (metis sublist_appendI)
qed

lemma combine_one: "combine_responses [x] p = x"
  by (simp add: combine_responses_def)

lemma combine_two:
  assumes "sublist (py ''currently'') w" and "\<not> prefix (py ''In '') x"
  shows "combine_responses [w, x] p
         = (if sublist (py ''places you can go'') x then w @ py ''. And '' @ x
            else w @ py '' '' @ x)"
  using assms by (simp add: combine_responses_def contains_sublist startswith_prefix Let_def)

text \<open>
  From the resolved place on, the reply either does not depend on the draw, or it is
  a text, the opening sentence drawn, and a text.
\<close>

lemma answer_shape:
  "(\<forall>d. answer env d u c g p = answer env Draw1 u c g p)
   \<or> (\<exists>pre post. \<forall>d. answer env d u c g p = Inr (pre @ greetings d p @ post))"
proof -
  define W where "W = (if wants_weather (determine_intent u)
            then (case get_weather (weather_api env (fst c) (snd c)) of
                    None \<Rightarrow> Inr []
                  | Some weather_data \<Rightarrow>
                      (case format_weather_response weather_data p of
                         Inl e \<Rightarrow> Inl e
                       | Inr weather_response \<Rightarrow> Inr [weather_response]))
            else Inr [])"
  define places where "places = get_tourist_attractions (overpass_api env (fst c) (snd c))"
  have ans: "answer env d u c g p =
     (case W of
        Inl e \<Rightarrow> Inl e
      | Inr responses \<Rightarrow>
          if wants_places (determine_intent u)
          then (if places \<noteq> []
                then Inr (combine_responses
                            (responses @ [format_places_response d places p]) p)
                else if is_likely_region p g
                then Inr (region_recheck_text p)
                else Inr (no_data_text p))
          else Inr (combine_responses responses p))" for d
    unfolding answer_def W_def places_def Let_def by (rule refl)
  have Wc: "(\<exists>e. W = Inl e) \<or> W = Inr []
            \<or> (\<exists>w. W = Inr [w] \<and> sublist (py ''currently'') w)"
    unfolding W_def
    by (auto split: option.splits sum.splits dest: weather_currently)
  show ?thesis
  proof (cases "wants_places (determine_intent u) \<and> places \<noteq> []")
    case False
    then have "answer env d u c g p = answer env Draw1 u c g p" for d
      by (auto simp: ans split: sum.splits)
    then show ?thesis by blast
  next
    case True
    then have pl: "places \<noteq> []" and wp: "wants_places (determine_intent u)" by simp_all
    note fpr = format_places_response_eq [OF pl]
    from Wc show ?thesis
    proof (elim disjE exE conjE)
      fix e assume "W = Inl e"
      then have "answer env d u c g p = answer env Draw1 u c g p" for d
        by (simp add: ans)
      then show ?thesis by blast
    next
      assume "W = Inr []"
      then have "answer env d u c g p = Inr ([] @ greetings d p @ places_body places)" for d
        using pl wp by (simp add: ans combine_one fpr)
      then show ?thesis by blast
    next
      fix w assume w: "W = Inr [w]" "sublist (py ''currently'') w"
      have two: "combine_responses [w, greetings d p @ places_body places] p
           = (if sublist (py ''places you can go'') p
                 \<or> sublist (py ''places you can go'') (tl (places_body places))
              then w @ py ''. And '' @ greetings d p @ places_body places
              else w @ py '' '' @ greetings d p @ places_body places)" for d
        using combine_two [OF w(2) not_in, of d p "places_body places" p]
        by (simp add: needle_in_places_text)
      show ?thesis
      proof (cases "sublist (py ''places you can go'') p
                 \<or> sublist (py ''places you can go'') (tl (places_body places))")
        case True
        then have "answer env d u c g p
                   = Inr ((w @ py ''. And '') @ greetings d p @ places_body places)" for d
          using pl wp w two [of d] by (simp add: ans fpr)
        then show ?thesis by blast
      next
        case False
        then have "answer env d u c g p
                   = Inr ((w @ py '' '') @ greetings d p @ places_body places)" for d
          using pl wp w two [of d] by (simp add: ans fpr)
        then show ?thesis by blast
      qed
    qed
  qed
qed

text \<open>
  C6, amended: for one input and one set of provider data, the reply is the same
  at every hour and for every draw, or it is the greeting, in which only the words
  for the time of day depend on the hour, or it is a fixed text, then the opening
  sentence of the places text that the draw picks among the five, for a fixed place
  name, then a fixed text.
\<close>

theorem C6_runs_differ_in_drawn_sentence:
  "(\<forall>h1 d1 h2 d2. process_query env h1 d1 q = process_query env h2 d2 q)
   \<or> (\<exists>tail. \<forall>h d. process_query env h d q = Inr (time_greeting h @ tail))
   \<or> (\<exists>pre name post. \<forall>h d. process_query env h d q = Inr (pre @ greetings d name @ post))"
proof -
  define u where "u = strip q"
  show ?thesis
  proof (cases "is_goodbye u")
    case True
    then have "process_query env h d q = Inr farewell_text" for h d
      by (simp add: process_query_def u_def Let_def)
    then show ?thesis by simp
  next
    case g: False
    show ?thesis
    proof (cases "is_greeting u")
      case True
      then have "process_query env h d q = Inr (greeting_text h)" for h d
        using g by (simp add: process_query_def u_def Let_def)
      then have "\<exists>tail. \<forall>h d. process_query env h d q = Inr (time_greeting h @ tail)"
        unfolding greeting_text_def by blast
      then show ?thesis by blast
    next
      case gr: False
      show ?thesis
      proof (cases "\<exists>pn gd co. \<not> length u < 3 \<and> \<not> wants_timing (determine_intent u)
                       \<and> \<not> wants_place_detail (determine_intent u)
                       \<and> extract_place_name u = Some pn
                       \<and> get_coordinates_with_details env pn = Some gd
                       \<and> coordinates gd = Some co
                       \<and> \<not> check_if_state_or_region (proper_name pn (info gd)) (info gd)")
        case True
        then obtain pn gd co where
          "\<not> length u < 3" "\<not> wants_timing (determine_intent u)"
          "\<not> wants_place_detail (determine_intent u)"
          "extract_place_name u = Some pn"
          "get_coordinates_with_details env pn = Some gd"
          "coordinates gd = Some co"
          "\<not> check_if_state_or_region (proper_name pn (info gd)) (info gd)"
          by blast
        then have pq: "process_query env h d q
                   = answer env d u co (info gd) (proper_name pn (info gd))" for h d
          using g gr by (simp add: process_query_def u_def Let_def)
        from answer_shape [of env u co "info gd" "proper_name pn (info gd)"]
        show ?thesis
        proof
          assume "\<forall>d. answer env d u co (info gd) (proper_name pn (info gd))
                       = answer env Draw1 u co (info gd) (proper_name pn (info gd))"
          then have "process_query env h1 d1 q = process_query env h2 d2 q" for h1 d1 h2 d2
            unfolding pq by metis
          then show ?thesis by blast
        next
          assume "\<exists>pre post. \<forall>d. answer env d u co (info gd) (proper_name pn (info gd))
                       = Inr (pre @ greetings d (proper_name pn (info gd)) @ post)"
          then have "\<exists>pre name post. \<forall>h d. process_query env h d q
                       = Inr (pre @ greetings d name @ post)"
            unfolding pq by blast
          then show ?thesis by blast
        qed
      next
        case False
        then have "process_query env h1 d1 q = process_query env h2 d2 q" for h1 d1 h2 d2
          using g gr
          by (auto simp: process_query_def u_def [symmetric] Let_def split: option.splits)
        then show ?thesis by blast
      qed
    qed
  qed
qed

theorem C6_runs_differ_in_drawn_sentence_witness:
  "(\<forall>h1 d1 h2 d2. process_query paris_env h1 d1 (py ''Paris'')
                     = process_query paris_env h2 d2 (py ''Paris''))
   \<or> (\<exists>tail. \<forall>h d. process_query paris_env h d (py ''Paris'') = Inr (time_greeting h @ tail))
   \<or> (\<exists>pre name post. \<forall>h d. process_query paris_env h d (py ''Paris'')
                               = Inr (pre @ greetings d name @ post))"
  by (rule C6_runs_differ_in_drawn_sentence)

section \<open>Place names\<close>

text \<open>
  C7. Place-name extraction on the query What's the weather in Bangalore? returns
  exactly Bangalore, and it is the first pattern that returns it.
\<close>

theorem C7_extract_bangalore:
  "extract_place_name (py ''What's the weather in Bangalore?'') = Some (py ''Bangalore'')
   \<and> pattern1 (py ''What's the weather in Bangalore?'') = Some (py ''Bangalore'')"
  by code_simp

section \<open>Intent\<close>

text \<open>
  C9, as the claim has it: when none of the keyword lists for weather, places and
  place detail matches, weather would be wanted exactly when a trip word occurs. The
  query where to travel matches none of the three lists and has the trip word travel,
  but the phrase where to sets places alone, and weather stays false.
\<close>

theorem C9_where_to_travel:
  "\<not> any_in weather_keywords (lower (py ''where to travel''))
   \<and> \<not> any_in places_keywords (lower (py ''where to travel''))
   \<and> \<not> any_in place_detail_keywords (lower (py ''where to travel''))
   \<and> any_in trip_words (lower (py ''where to travel''))
   \<and> wants_places (determine_intent (py ''where to travel''))
   \<and> \<not> wants_weather (determine_intent (py ''where to travel''))"
  by code_simp

text \<open>
  C9, amended: when none of the keyword lists for weather, places and place detail
  matches, and none of the phrases that force places either, then places is wanted,
  and weather is wanted exactly when one of going, trip, travel, plan occurs.
\<close>

theorem C9_default_intent:
  assumes "\<not> any_in weather_keywords (lower q)"
    and "\<not> any_in places_keywords (lower q)"
    and "\<not> any_in places_phrases (lower q)"
    and "\<not> any_in place_detail_keywords (lower q)"
  shows "wants_places (determine_intent q)
         \<and> (wants_weather (determine_intent q) \<longleftrightarrow> any_in trip_words (lower q))"
  using assms unfolding determine_intent_def Let_def by simp

theorem C9_default_intent_witness:
  "\<not> any_in weather_keywords (lower (py ''I am planning a trip to Rome''))
   \<and> \<not> any_in places_keywords (lower (py ''I am planning a trip to Rome''))
   \<and> \<not> any_in places_phrases (lower (py ''I am planning a trip to Rome''))
   \<and> \<not> any_in place_detail_keywords (lower (py ''I am planning a trip to Rome''))
   \<and> any_in trip_words (lower (py ''I am planning a trip to Rome''))
   \<and> wants_places (determine_intent (py ''I am planning a trip to Rome''))
   \<and> wants_weather (determine_intent (py ''I am planning a trip to Rome''))"
proof -
  have h1: "\<not> any_in weather_keywords (lower (py ''I am planning a trip to Rome''))" by code_simp
  have h2: "\<not> any_in places_keywords (lower (py ''I am planning a trip to Rome''))" by code_simp
  have h3: "\<not> any_in places_phrases (lower (py ''I am planning a trip to Rome''))" by code_simp
  have h4: "\<not> any_in place_detail_keywords (lower (py ''I am planning a trip to Rome''))" by code_simp
  have h5: "any_in trip_words (lower (py ''I am planning a trip to Rome''))" by code_simp
  from C9_default_intent [OF h1 h2 h3 h4] h1 h2 h3 h4 h5 show ?thesis by simp
qed

section \<open>Goodbyes\<close>

text \<open>
  C10. An input is white space, a text that neither starts nor ends with white
  space, and white space again; the text in the middle is its trimmed form. When that
  text, lower-cased, is a goodbye phrase, starts with one followed by a space, or
  ends with a space followed by one, \<open>process_query\<close> returns the farewell text,
  whatever else the query holds: the query what places can I visit in Paris thanks,
  here between a no-break space and an em space with a newline, gets the farewell
  and no places.
\<close>

theorem C10_goodbye_first:
  assumes "list_all is_space pre" and "list_all is_space post"
    and "core \<noteq> []" and "\<not> is_space (hd core)" and "\<not> is_space (last core)"
    and "list_ex (\<lambda>phrase. lower core = phrase
                      \<or> startswith (lower core) (phrase @ py '' '')
                      \<or> endswith (lower core) (py '' '' @ phrase)) goodbye_phrases"
  shows "process_query env hour d (pre @ core @ post) = Inr farewell_text"
proof -
  have s: "strip (pre @ core @ post) = core"
    using assms by (simp add: strip_around)
  have "strip (lower core) = lower core"
    using lower_ends [OF assms(3) assms(4) assms(5)] by (simp add: strip_id)
  then have "is_goodbye core"
    using assms(6) unfolding is_goodbye_def Let_def
    by (simp add: list_ex_iff eq_commute)
  then show ?thesis by (simp add: process_query_def Let_def s)
qed

theorem C10_goodbye_first_witness:
  "list_all is_space [160] \<and> list_all is_space [8195, 10]
   \<and> py ''what places can I visit in Paris thanks'' \<noteq> []
   \<and> \<not> is_space (hd (py ''what places can I visit in Paris thanks''))
   \<and> \<not> is_space (last (py ''what places can I visit in Paris thanks''))
   \<and> list_ex (\<lambda>phrase. lower (py ''what places can I visit in Paris thanks'') = phrase
              \<or> startswith (lower (py ''what places can I visit in Paris thanks''))
                   (phrase @ py '' '')
              \<or> endswith (lower (py ''what places can I visit in Paris thanks''))
                   (py '' '' @ phrase)) goodbye_phrases
   \<and> process_query paris_env 9 Draw1
         ([160] @ py ''what places can I visit in Paris thanks'' @ [8195, 10])
       = Inr farewell_text"
proof -
  have h1: "list_all is_space [160]" and h2: "list_all is_space [8195, 10]"
    by code_simp+
  have h3: "py ''what places can I visit in Paris thanks'' \<noteq> []"
    and h4: "\<not> is_space (hd (py ''what places can I visit in Paris thanks''))"
    and h5: "\<not> is_space (last (py ''what places can I visit in Paris thanks''))"
    by code_simp+
  have h6: "list_ex (\<lambda>phrase. lower (py ''what places can I visit in Paris thanks'') = phrase
              \<or> startswith (lower (py ''what places can I visit in Paris thanks''))
                   (phrase @ py '' '')
              \<or> endswith (lower (py ''what places can I visit in Paris thanks''))
                   (py '' '' @ phrase)) goodbye_phrases"
    by code_simp
  from C10_goodbye_first [OF h1 h2 h3 h4 h5 h6] h1 h2 h3 h4 h5 h6 show ?thesis by blast
qed

end
